theory Spec2Isabelle
  imports Main "HOL-Library.Word" "HOL-Library.AList"
begin

unbundle bit_operations_syntax

section \<open>Values of the language the handler is written in\<close>

text \<open>
  The handler of \<^verbatim>\<open>src/lib/serverless-app-stack.ts\<close> (lines 478 to 550, the Lambda
  function behind the \<^verbatim>\<open>/posts\<close> routes, on the table \<^verbatim>\<open>blogdb\<close>) is JavaScript. The
  file holds a second handler, for \<^verbatim>\<open>/items\<close> (lines 551 to 621), which is not modelled
  here. Strings of the language are sequences of 16-bit code units, so a string is a
  list of 16-bit words; \<open>js\<close> writes an ASCII literal of the source as such a list.
\<close>

type_synonym jsstring = "16 word list"

definition js :: "string \<Rightarrow> jsstring" where
  "js s = map (\<lambda>c. of_nat (of_char c)) s"

text \<open>
  The values that reach the handler: what \<^verbatim>\<open>JSON.parse\<close> builds, what the document
  client hands back, and \<^verbatim>\<open>undefined\<close>. A number is kept as the text that the
  language's number-to-string conversion gives for it (binary64 arithmetic is not
  modelled, and the handler does none). An object is the list of its own properties in
  enumeration order.
\<close>

datatype jsvalue =
    JUndefined
  | JNull
  | JBool bool
  | JNumber jsstring
  | JString jsstring
  | JArray "jsvalue list"
  | JObject "(jsstring \<times> jsvalue) list"

datatype error_name = Error | SyntaxError | TypeError | StoreFailure

text \<open>A thrown exception: the handler reads nothing of it but \<^verbatim>\<open>err.message\<close>.\<close>

datatype js_error = Thrown (name: error_name) (message: jsstring)

subsection \<open>\<^verbatim>\<open>JSON.stringify\<close>\<close>

definition hex_digit :: "16 word \<Rightarrow> 16 word" where
  "hex_digit n = (if n < 10 then 0x30 + n else 0x57 + n)"

definition UnicodeEscape :: "16 word \<Rightarrow> jsstring" where
  "UnicodeEscape c =
     [0x5C, 0x75,
      hex_digit (drop_bit 12 c AND 0xF), hex_digit (drop_bit 8 c AND 0xF),
      hex_digit (drop_bit 4 c AND 0xF), hex_digit (c AND 0xF)]"

definition is_leading_surrogate :: "16 word \<Rightarrow> bool" where
  "is_leading_surrogate c = (0xD800 \<le> c \<and> c \<le> 0xDBFF)"

definition is_trailing_surrogate :: "16 word \<Rightarrow> bool" where
  "is_trailing_surrogate c = (0xDC00 \<le> c \<and> c \<le> 0xDFFF)"

text \<open>
  The body of \<^verbatim>\<open>QuoteJSONString\<close>: the seven short escapes, \<^verbatim>\<open>\uXXXX\<close> for the other
  control characters and for a surrogate without its partner, every other code point
  as it is.
\<close>

definition short_escape :: "16 word \<Rightarrow> jsstring option" where
  "short_escape c =
     (if c = 0x08 then Some [0x5C, 0x62]
      else if c = 0x09 then Some [0x5C, 0x74]
      else if c = 0x0A then Some [0x5C, 0x6E]
      else if c = 0x0C then Some [0x5C, 0x66]
      else if c = 0x0D then Some [0x5C, 0x72]
      else if c = 0x22 then Some [0x5C, 0x22]
      else if c = 0x5C then Some [0x5C, 0x5C]
      else if c < 0x20 then Some (UnicodeEscape c)
      else None)"

fun quote_units :: "jsstring \<Rightarrow> jsstring" where
  "quote_units [] = []"
| "quote_units (c # cs) =
     (case short_escape c of
        Some e \<Rightarrow> e @ quote_units cs
      | None \<Rightarrow>
          if is_leading_surrogate c then
            (case cs of
               [] \<Rightarrow> UnicodeEscape c
             | d # ds \<Rightarrow>
                 if is_trailing_surrogate d then c # d # quote_units ds
                 else UnicodeEscape c @ quote_units cs)
          else if is_trailing_surrogate c then UnicodeEscape c @ quote_units cs
          else c # quote_units cs)"

definition QuoteJSONString :: "jsstring \<Rightarrow> jsstring" where
  "QuoteJSONString s = [0x22] @ quote_units s @ [0x22]"

fun join :: "jsstring \<Rightarrow> jsstring list \<Rightarrow> jsstring" where
  "join sep [] = []"
| "join sep [x] = x"
| "join sep (x # y # ys) = x @ sep @ join sep (y # ys)"

definition is_finite_text :: "jsstring \<Rightarrow> bool" where
  "is_finite_text t =
     (if t = js ''NaN'' then False
      else if t = js ''Infinity'' then False
      else if t = js ''-Infinity'' then False
      else True)"

text \<open>
  \<^verbatim>\<open>SerializeJSONProperty\<close> with no replacer and no indentation. The result is absent
  for \<^verbatim>\<open>undefined\<close>; inside an array \<^verbatim>\<open>undefined\<close> is written \<^verbatim>\<open>null\<close>, inside an
  object the property is left out. No value of \<open>jsvalue\<close> is callable, so an own
  property named \<^verbatim>\<open>toJSON\<close> changes nothing.
\<close>

fun SerializeJSONProperty :: "jsvalue \<Rightarrow> jsstring option"
  and SerializeJSONArray :: "jsvalue list \<Rightarrow> jsstring list"
  and SerializeJSONObject :: "(jsstring \<times> jsvalue) list \<Rightarrow> jsstring list"
where
  "SerializeJSONProperty JUndefined = None"
| "SerializeJSONProperty JNull = Some (js ''null'')"
| "SerializeJSONProperty (JBool b) = Some (if b then js ''true'' else js ''false'')"
| "SerializeJSONProperty (JNumber t) = Some (if is_finite_text t then t else js ''null'')"
| "SerializeJSONProperty (JString s) = Some (QuoteJSONString s)"
| "SerializeJSONProperty (JArray vs) =
     Some (js ''['' @ join (js '','') (SerializeJSONArray vs) @ js '']'')"
| "SerializeJSONProperty (JObject ps) =
     Some (js ''{'' @ join (js '','') (SerializeJSONObject ps) @ js ''}'')"
| "SerializeJSONArray [] = []"
| "SerializeJSONArray (v # vs) =
     (case SerializeJSONProperty v of
        None \<Rightarrow> js ''null'' # SerializeJSONArray vs
      | Some t \<Rightarrow> t # SerializeJSONArray vs)"
| "SerializeJSONObject [] = []"
| "SerializeJSONObject (p # ps) =
     (case SerializeJSONProperty (snd p) of
        None \<Rightarrow> SerializeJSONObject ps
      | Some t \<Rightarrow> (QuoteJSONString (fst p) @ js '':'' @ t) # SerializeJSONObject ps)"

definition JSON_stringify :: "jsvalue \<Rightarrow> jsstring option" where
  "JSON_stringify v = SerializeJSONProperty v"

subsection \<open>String conversion and property reads\<close>

text \<open>
  \<^verbatim>\<open>ToString\<close>, as a template literal applies it; \<open>None\<close> is a thrown \<^verbatim>\<open>TypeError\<close>.
  An array is converted by joining its elements with commas, \<^verbatim>\<open>null\<close> and \<^verbatim>\<open>undefined\<close>
  elements as the empty string. A plain object is \<^verbatim>\<open>[object Object]\<close>, unless it has an
  own property named \<^verbatim>\<open>toString\<close>: that value is not callable, the inherited
  \<^verbatim>\<open>valueOf\<close> (or a non-callable own one) yields no primitive, and the conversion throws.
\<close>

fun ToString :: "jsvalue \<Rightarrow> jsstring option"
  and ToString_elements :: "jsvalue list \<Rightarrow> jsstring list option"
where
  "ToString JUndefined = Some (js ''undefined'')"
| "ToString JNull = Some (js ''null'')"
| "ToString (JBool b) = Some (if b then js ''true'' else js ''false'')"
| "ToString (JNumber t) = Some t"
| "ToString (JString s) = Some s"
| "ToString (JArray vs) = map_option (join (js '','')) (ToString_elements vs)"
| "ToString (JObject ps) =
     (if map_of ps (js ''toString'') = None then Some (js ''[object Object]'') else None)"
| "ToString_elements [] = Some []"
| "ToString_elements (v # vs) =
     (case (if v = JUndefined then Some [] else if v = JNull then Some [] else ToString v) of
        None \<Rightarrow> None
      | Some t \<Rightarrow> map_option (Cons t) (ToString_elements vs))"

text \<open>
  The property read \<^verbatim>\<open>v.k\<close>, for a name \<open>k\<close> that no built-in prototype defines (the
  handler reads \<^verbatim>\<open>id\<close>, \<^verbatim>\<open>postTitle\<close>, \<^verbatim>\<open>postDescription\<close>, \<^verbatim>\<open>Item\<close> and \<^verbatim>\<open>Items\<close>):
  \<open>None\<close> is the \<^verbatim>\<open>TypeError\<close> of reading a property of \<^verbatim>\<open>null\<close> or \<^verbatim>\<open>undefined\<close>; a
  property that is not an own property is \<^verbatim>\<open>undefined\<close>.
\<close>

fun GetV :: "jsvalue \<Rightarrow> jsstring \<Rightarrow> jsvalue option" where
  "GetV JUndefined k = None"
| "GetV JNull k = None"
| "GetV (JObject ps) k = Some (case map_of ps k of None \<Rightarrow> JUndefined | Some v \<Rightarrow> v)"
| "GetV v k = Some JUndefined"

subsection \<open>\<^verbatim>\<open>JSON.parse\<close>\<close>

datatype token =
    TLBrace | TRBrace | TLBracket | TRBracket | TColon | TComma
  | TString jsstring | TNumber jsstring | TTrue | TFalse | TNull

definition is_digit :: "16 word \<Rightarrow> bool" where
  "is_digit c = (0x30 \<le> c \<and> c \<le> 0x39)"

definition hex_value :: "16 word \<Rightarrow> 16 word option" where
  "hex_value c =
     (if 0x30 \<le> c \<and> c \<le> 0x39 then Some (c - 0x30)
      else if 0x41 \<le> c \<and> c \<le> 0x46 then Some (c - 0x37)
      else if 0x61 \<le> c \<and> c \<le> 0x66 then Some (c - 0x57)
      else None)"

definition hex4 :: "16 word \<Rightarrow> 16 word \<Rightarrow> 16 word \<Rightarrow> 16 word \<Rightarrow> 16 word option" where
  "hex4 a b c d =
     (case (hex_value a, hex_value b, hex_value c, hex_value d) of
        (Some w, Some x, Some y, Some z) \<Rightarrow>
          Some (push_bit 12 w OR push_bit 8 x OR push_bit 4 y OR z)
      | _ \<Rightarrow> None)"

text \<open>
  A string token, read after its opening quote: the characters up to the closing quote
  (collected in reverse) and the rest of the input. A control character, an unknown
  escape and a missing closing quote are errors.
\<close>

definition simple_escape :: "16 word \<Rightarrow> 16 word option" where
  "simple_escape e =
     (if e = 0x22 then Some 0x22
      else if e = 0x5C then Some 0x5C
      else if e = 0x2F then Some 0x2F
      else if e = 0x62 then Some 0x08
      else if e = 0x66 then Some 0x0C
      else if e = 0x6E then Some 0x0A
      else if e = 0x72 then Some 0x0D
      else if e = 0x74 then Some 0x09
      else None)"

fun lex_string :: "jsstring \<Rightarrow> jsstring \<Rightarrow> (jsstring \<times> jsstring) option"
  and lex_escape :: "jsstring \<Rightarrow> jsstring \<Rightarrow> (jsstring \<times> jsstring) option"
where
  "lex_string [] acc = None"
| "lex_string (c # cs) acc =
     (if c = 0x22 then Some (rev acc, cs)
      else if c = 0x5C then lex_escape cs acc
      else if c < 0x20 then None
      else lex_string cs (c # acc))"
| "lex_escape [] acc = None"
| "lex_escape (e # cs) acc =
     (if e = 0x75 then
        (case cs of
           a # b # c # d # rest \<Rightarrow>
             (case hex4 a b c d of None \<Rightarrow> None | Some u \<Rightarrow> lex_string rest (u # acc))
         | _ \<Rightarrow> None)
      else
        (case simple_escape e of None \<Rightarrow> None | Some x \<Rightarrow> lex_string cs (x # acc)))"

text \<open>
  A number token: an optional minus, \<^verbatim>\<open>0\<close> or a digit sequence without leading zero, an
  optional fraction, an optional exponent. The token is the longest such prefix.
\<close>

definition lex_int :: "jsstring \<Rightarrow> (jsstring \<times> jsstring) option" where
  "lex_int cs =
     (case cs of
        [] \<Rightarrow> None
      | d # r \<Rightarrow>
          if d = 0x30 then Some ([d], r)
          else if is_digit d then Some (d # takeWhile is_digit r, dropWhile is_digit r)
          else None)"

definition lex_frac :: "jsstring \<Rightarrow> (jsstring \<times> jsstring) option" where
  "lex_frac cs =
     (case cs of
        [] \<Rightarrow> Some ([], [])
      | c # r \<Rightarrow>
          if c = 0x2E then
            (if takeWhile is_digit r = [] then None
             else Some (c # takeWhile is_digit r, dropWhile is_digit r))
          else Some ([], cs))"

definition lex_sign :: "jsstring \<Rightarrow> jsstring \<times> jsstring" where
  "lex_sign cs =
     (case cs of
        [] \<Rightarrow> ([], [])
      | c # r \<Rightarrow> if c = 0x2B \<or> c = 0x2D then ([c], r) else ([], cs))"

definition lex_exp :: "jsstring \<Rightarrow> (jsstring \<times> jsstring) option" where
  "lex_exp cs =
     (case cs of
        [] \<Rightarrow> Some ([], [])
      | c # r \<Rightarrow>
          if c = 0x65 \<or> c = 0x45 then
            (case lex_sign r of
               (sg, r') \<Rightarrow>
                 if takeWhile is_digit r' = [] then None
                 else Some (c # sg @ takeWhile is_digit r', dropWhile is_digit r'))
          else Some ([], cs))"

definition lex_minus :: "jsstring \<Rightarrow> jsstring \<times> jsstring" where
  "lex_minus cs =
     (case cs of
        [] \<Rightarrow> ([], [])
      | c # r \<Rightarrow> if c = 0x2D then ([c], r) else ([], cs))"

definition lex_number :: "jsstring \<Rightarrow> (jsstring \<times> jsstring) option" where
  "lex_number cs =
     (case lex_minus cs of
        (sg, r0) \<Rightarrow>
          (case lex_int r0 of
             None \<Rightarrow> None
           | Some (i, r1) \<Rightarrow>
               (case lex_frac r1 of
                  None \<Rightarrow> None
                | Some (f, r2) \<Rightarrow>
                    (case lex_exp r2 of
                       None \<Rightarrow> None
                     | Some (e, r3) \<Rightarrow> Some (sg @ i @ f @ e, r3)))))"

lemma lex_string_shorter:
  "lex_string cs acc = Some (s, r) \<Longrightarrow> length r < length cs"
  "lex_escape cs acc = Some (s, r) \<Longrightarrow> length r < length cs"
proof (induction cs acc and cs acc arbitrary: s r and s r rule: lex_string_lex_escape.induct)
  case (2 c cs acc)
  then show ?case by (auto split: if_splits intro: less_SucI)
next
  case (4 e cs acc)
  show ?case
  proof (cases "e = 0x75")
    case True
    with 4(3) obtain a b c d rest u where cs: "cs = a # b # c # d # rest"
      and h: "hex4 a b c d = Some u" and l: "lex_string rest (u # acc) = Some (s, r)"
      by (auto split: list.splits option.splits)
    have "length r < length rest"
      using "4.IH"(1) [of a "b # c # d # rest" b "c # d # rest" c "d # rest" d rest u s r] True cs h l
      by simp
    with cs show ?thesis by simp
  next
    case False
    with 4(3) obtain x where x: "simple_escape e = Some x"
      and l: "lex_string cs (x # acc) = Some (s, r)"
      by (auto split: option.splits)
    have "length r < length cs" using "4.IH"(2) [OF False x l] .
    then show ?thesis by simp
  qed
qed simp_all

lemma lex_int_shorter: "lex_int cs = Some (t, r) \<Longrightarrow> length r < length cs"
  by (auto simp: lex_int_def less_Suc_eq_le length_dropWhile_le split: list.splits if_splits)

lemma lex_frac_shorter: "lex_frac cs = Some (t, r) \<Longrightarrow> length r \<le> length cs"
  by (auto simp: lex_frac_def le_SucI length_dropWhile_le split: list.splits if_splits)

lemma lex_sign_shorter: "lex_sign cs = (t, r) \<Longrightarrow> length r \<le> length cs"
  by (auto simp: lex_sign_def split: list.splits if_splits)

lemma lex_exp_shorter: "lex_exp cs = Some (t, r) \<Longrightarrow> length r \<le> length cs"
proof -
  assume a: "lex_exp cs = Some (t, r)"
  show ?thesis
  proof (cases cs)
    case Nil
    with a show ?thesis by (simp add: lex_exp_def)
  next
    case (Cons c cs')
    obtain sg r' where sr: "lex_sign cs' = (sg, r')" by (cases "lex_sign cs'")
    have le: "length (dropWhile is_digit r') \<le> length cs'"
      using lex_sign_shorter [OF sr] length_dropWhile_le [of is_digit r'] by simp
    from a Cons sr le show ?thesis
      by (auto simp: lex_exp_def split: if_splits)
  qed
qed

lemma lex_minus_shorter: "lex_minus cs = (t, r) \<Longrightarrow> length r \<le> length cs"
  by (auto simp: lex_minus_def split: list.splits if_splits)

lemma lex_number_shorter: "lex_number cs = Some (t, r) \<Longrightarrow> length r < length cs"
proof -
  assume a: "lex_number cs = Some (t, r)"
  obtain sg r0 where m: "lex_minus cs = (sg, r0)" by (cases "lex_minus cs")
  from a m obtain i r1 where i: "lex_int r0 = Some (i, r1)"
    by (auto simp: lex_number_def split: option.splits)
  from a m i obtain f r2 where f: "lex_frac r1 = Some (f, r2)"
    by (auto simp: lex_number_def split: option.splits)
  from a m i f obtain e where e: "lex_exp r2 = Some (e, r)"
    by (auto simp: lex_number_def split: option.splits)
  show ?thesis
    using lex_minus_shorter [OF m] lex_int_shorter [OF i] lex_frac_shorter [OF f]
      lex_exp_shorter [OF e] by simp
qed

definition is_whitespace :: "16 word \<Rightarrow> bool" where
  "is_whitespace c = (c = 0x20 \<or> c = 0x09 \<or> c = 0x0A \<or> c = 0x0D)"

text \<open>The tokens of a text; \<open>None\<close> when some character starts no token.\<close>

function tokenize :: "jsstring \<Rightarrow> token list option" where
  "tokenize [] = Some []"
| "tokenize (c # cs) =
     (if is_whitespace c then tokenize cs
      else if c = 0x7B then map_option (Cons TLBrace) (tokenize cs)
      else if c = 0x7D then map_option (Cons TRBrace) (tokenize cs)
      else if c = 0x5B then map_option (Cons TLBracket) (tokenize cs)
      else if c = 0x5D then map_option (Cons TRBracket) (tokenize cs)
      else if c = 0x3A then map_option (Cons TColon) (tokenize cs)
      else if c = 0x2C then map_option (Cons TComma) (tokenize cs)
      else if c = 0x22 then
        (case lex_string cs [] of
           None \<Rightarrow> None
         | Some (s, r) \<Rightarrow> map_option (Cons (TString s)) (tokenize r))
      else if c = 0x2D \<or> is_digit c then
        (case lex_number (c # cs) of
           None \<Rightarrow> None
         | Some (t, r) \<Rightarrow> map_option (Cons (TNumber t)) (tokenize r))
      else if take 4 (c # cs) = js ''true'' then
        map_option (Cons TTrue) (tokenize (drop 3 cs))
      else if take 5 (c # cs) = js ''false'' then
        map_option (Cons TFalse) (tokenize (drop 4 cs))
      else if take 4 (c # cs) = js ''null'' then
        map_option (Cons TNull) (tokenize (drop 3 cs))
      else None)"
  by pat_completeness auto
termination
proof (relation "measure length")
  fix c cs x2 x y
  assume "lex_string cs [] = Some x2" "(x, y) = x2"
  then show "(y, c # cs) \<in> measure length"
    using lex_string_shorter(1) [of cs "[]" x y] by simp
next
  fix c cs x2 x y
  assume "lex_number (c # cs) = Some x2" "(x, y) = x2"
  then show "(y, c # cs) \<in> measure length"
    using lex_number_shorter [of "c # cs" x y] by simp
qed simp_all

text \<open>
  Own properties are enumerated with the array indices first, in ascending order, then
  the other names in the order of their creation. \<^verbatim>\<open>JSON.parse\<close> creates a property
  for every member it reads; a repeated name keeps its place and takes the later value.
\<close>

fun digits_value :: "jsstring \<Rightarrow> int \<Rightarrow> int" where
  "digits_value [] n = n"
| "digits_value (c # cs) n = digits_value cs (10 * n + uint (c - 0x30))"

definition is_array_index :: "jsstring \<Rightarrow> bool" where
  "is_array_index k =
     (case k of
        [] \<Rightarrow> False
      | c # cs \<Rightarrow>
          if c = 0x30 then cs = []
          else list_all is_digit k \<and> digits_value k 0 < 4294967295)"

fun insert_index :: "jsstring \<Rightarrow> jsvalue \<Rightarrow> (jsstring \<times> jsvalue) list \<Rightarrow> (jsstring \<times> jsvalue) list" where
  "insert_index k v [] = [(k, v)]"
| "insert_index k v (p # ps) =
     (if is_array_index (fst p) \<and> digits_value (fst p) 0 < digits_value k 0
      then p # insert_index k v ps
      else (k, v) # p # ps)"

definition CreateDataProperty ::
  "(jsstring \<times> jsvalue) list \<Rightarrow> jsstring \<Rightarrow> jsvalue \<Rightarrow> (jsstring \<times> jsvalue) list" where
  "CreateDataProperty ps k v =
     (if map_of ps k = None \<and> is_array_index k then insert_index k v ps
      else AList.update k v ps)"

text \<open>
  The grammar over the tokens, as a pushdown machine: the stack holds the arrays and
  objects that are open, an array with its elements so far (in reverse), an object with
  its properties so far and, between a name and its value, that name.
\<close>

datatype frame =
    FArray "jsvalue list"
  | FObject "(jsstring \<times> jsvalue) list"
  | FMember "(jsstring \<times> jsvalue) list" jsstring

datatype pstate = PValue | PValueOrClose | PKey | PKeyOrClose | PColon | PAfter | PDone jsvalue

fun complete :: "jsvalue \<Rightarrow> frame list \<Rightarrow> (pstate \<times> frame list) option" where
  "complete v [] = Some (PDone v, [])"
| "complete v (FArray acc # st) = Some (PAfter, FArray (v # acc) # st)"
| "complete v (FMember ps k # st) = Some (PAfter, FObject (CreateDataProperty ps k v) # st)"
| "complete v (FObject ps # st) = None"

fun scalar :: "(jsstring \<Rightarrow> jsstring) \<Rightarrow> token \<Rightarrow> jsvalue option" where
  "scalar num (TString s) = Some (JString s)"
| "scalar num (TNumber t) = Some (JNumber (num t))"
| "scalar num TTrue = Some (JBool True)"
| "scalar num TFalse = Some (JBool False)"
| "scalar num TNull = Some JNull"
| "scalar num t = None"

fun begin_value :: "(jsstring \<Rightarrow> jsstring) \<Rightarrow> token \<Rightarrow> frame list \<Rightarrow> (pstate \<times> frame list) option" where
  "begin_value num TLBracket st = Some (PValueOrClose, FArray [] # st)"
| "begin_value num TLBrace st = Some (PKeyOrClose, FObject [] # st)"
| "begin_value num t st = (case scalar num t of None \<Rightarrow> None | Some v \<Rightarrow> complete v st)"

fun close_array :: "frame list \<Rightarrow> (pstate \<times> frame list) option" where
  "close_array (FArray acc # st) = complete (JArray (rev acc)) st"
| "close_array st = None"

fun close_object :: "frame list \<Rightarrow> (pstate \<times> frame list) option" where
  "close_object (FObject ps # st) = complete (JObject ps) st"
| "close_object st = None"

fun begin_member :: "token \<Rightarrow> frame list \<Rightarrow> (pstate \<times> frame list) option" where
  "begin_member (TString k) (FObject ps # st) = Some (PColon, FMember ps k # st)"
| "begin_member t st = None"

fun after_value :: "token \<Rightarrow> frame list \<Rightarrow> (pstate \<times> frame list) option" where
  "after_value TComma (FArray acc # st) = Some (PValue, FArray acc # st)"
| "after_value TComma (FObject ps # st) = Some (PKey, FObject ps # st)"
| "after_value TRBracket st = close_array st"
| "after_value TRBrace st = close_object st"
| "after_value t st = None"

fun step :: "(jsstring \<Rightarrow> jsstring) \<Rightarrow> pstate \<Rightarrow> frame list \<Rightarrow> token \<Rightarrow> (pstate \<times> frame list) option" where
  "step num PValue st t = begin_value num t st"
| "step num PValueOrClose st t = (if t = TRBracket then close_array st else begin_value num t st)"
| "step num PKey st t = begin_member t st"
| "step num PKeyOrClose st t = (if t = TRBrace then close_object st else begin_member t st)"
| "step num PColon st t = (if t = TColon then Some (PValue, st) else None)"
| "step num PAfter st t = after_value t st"
| "step num (PDone v) st t = None"

fun run :: "(jsstring \<Rightarrow> jsstring) \<Rightarrow> pstate \<Rightarrow> frame list \<Rightarrow> token list \<Rightarrow> jsvalue option" where
  "run num (PDone v) st [] = Some v"
| "run num ps st [] = None"
| "run num ps st (t # ts) =
     (case step num ps st t of None \<Rightarrow> None | Some (ps', st') \<Rightarrow> run num ps' st' ts)"

text \<open>
  The value a text denotes, \<open>None\<close> for a text outside the grammar. \<open>num\<close> is the
  platform's conversion of a number literal to the text of the number it denotes.
\<close>

definition parse_text :: "(jsstring \<Rightarrow> jsstring) \<Rightarrow> jsstring \<Rightarrow> jsvalue option" where
  "parse_text num text =
     (case tokenize text of None \<Rightarrow> None | Some ts \<Rightarrow> run num PValue [] ts)"

section \<open>The platform the handler runs on\<close>

text \<open>
  The commands of the document client that the handler builds, each with its
  \<^verbatim>\<open>TableName\<close> and its \<^verbatim>\<open>Key\<close> or \<^verbatim>\<open>Item\<close> object.
\<close>

datatype command =
    DeleteCommand jsstring "(jsstring \<times> jsvalue) list"
  | GetCommand jsstring "(jsstring \<times> jsvalue) list"
  | ScanCommand jsstring
  | PutCommand jsstring "(jsstring \<times> jsvalue) list"

text \<open>
  What the source leaves to its surroundings is a parameter of the model: the store
  behind \<^verbatim>\<open>dynamo.send\<close>, as a function of the command and the store's state that
  answers with an output object or throws; the wording of the engine's own error
  messages; and the engine's reading of a number literal.
\<close>

record 's platform =
  dynamo_send :: "command \<Rightarrow> 's \<Rightarrow> (js_error + jsvalue) \<times> 's"
  syntax_error_message :: "jsstring \<Rightarrow> jsstring"
  property_error_message :: "jsvalue \<Rightarrow> jsstring \<Rightarrow> jsstring"
  primitive_error_message :: "jsvalue \<Rightarrow> jsstring"
  number_text :: "jsstring \<Rightarrow> jsstring"

text \<open>
  A computation of the handler: it runs on the store's state and ends with a value or
  with a thrown exception.
\<close>

type_synonym ('s, 'a) action = "'s \<Rightarrow> (js_error + 'a) \<times> 's"

definition return :: "'a \<Rightarrow> ('s, 'a) action" where
  "return a = (\<lambda>s. (Inr a, s))"

definition throw :: "js_error \<Rightarrow> ('s, 'a) action" where
  "throw e = (\<lambda>s. (Inl e, s))"

definition and_then :: "('s, 'a) action \<Rightarrow> ('a \<Rightarrow> ('s, 'b) action) \<Rightarrow> ('s, 'b) action" where
  "and_then m f = (\<lambda>s. case m s of (Inl e, s') \<Rightarrow> (Inl e, s') | (Inr a, s') \<Rightarrow> f a s')"

definition to_string :: "'s platform \<Rightarrow> jsvalue \<Rightarrow> ('s, jsstring) action" where
  "to_string p v =
     (case ToString v of
        None \<Rightarrow> throw (Thrown TypeError (primitive_error_message p v))
      | Some t \<Rightarrow> return t)"

definition get :: "'s platform \<Rightarrow> jsvalue \<Rightarrow> jsstring \<Rightarrow> ('s, jsvalue) action" where
  "get p v k =
     (case GetV v k of
        None \<Rightarrow> throw (Thrown TypeError (property_error_message p v k))
      | Some x \<Rightarrow> return x)"

text \<open>\<^verbatim>\<open>JSON.parse(x)\<close>: the argument is converted to a string, then parsed.\<close>

definition JSON_parse :: "'s platform \<Rightarrow> jsvalue \<Rightarrow> ('s, jsvalue) action" where
  "JSON_parse p x =
     and_then (to_string p x) (\<lambda>text.
       case parse_text (number_text p) text of
         None \<Rightarrow> throw (Thrown SyntaxError (syntax_error_message p text))
       | Some v \<Rightarrow> return v)"

section \<open>The handler\<close>

text \<open>
  The event of the API layer: \<^verbatim>\<open>httpMethod\<close> and \<^verbatim>\<open>resource\<close> are strings;
  \<^verbatim>\<open>pathParameters\<close> and the request's \<^verbatim>\<open>body\<close> are values, since either may be
  \<^verbatim>\<open>null\<close>. The request's body is the field \<open>request_body\<close>, the name \<open>body\<close>
  being the response's.
\<close>

record event =
  httpMethod :: jsstring
  resource :: jsstring
  pathParameters :: jsvalue
  request_body :: jsvalue

record response =
  statusCode :: int
  body :: "jsstring option"
  headers :: "(jsstring \<times> jsvalue) list"

definition tableName :: jsstring where
  "tableName = js ''blogdb''"

definition response_headers :: "(jsstring \<times> jsvalue) list" where
  "response_headers =
     [(js ''Content-Type'', JString (js ''application/json'')),
      (js ''Access-Control-Allow-Origin'', JString (js ''http://localhost:3000'')),
      (js ''Access-Control-Allow-Credentials'', JBool True)]"

definition routing_key :: "event \<Rightarrow> jsstring" where
  "routing_key event = httpMethod event @ js '' '' @ resource event"

text \<open>
  The body of the \<^verbatim>\<open>try\<close> block: the \<^verbatim>\<open>switch\<close> over the routing key, its cases in
  the order of the source. The result is the value of the variable \<^verbatim>\<open>body\<close> at the end
  of the block.
\<close>

definition try_block :: "'s platform \<Rightarrow> event \<Rightarrow> ('s, jsvalue) action" where
  "try_block p event =
     (if routing_key event = js ''DELETE /posts/{id}'' then
        and_then (get p (pathParameters event) (js ''id'')) (\<lambda>i.
        and_then (dynamo_send p (DeleteCommand tableName [(js ''id'', i)])) (\<lambda>_.
        and_then (get p (pathParameters event) (js ''id'')) (\<lambda>i'.
        and_then (to_string p i') (\<lambda>t.
        return (JString (js ''Deleted item '' @ t))))))
      else if routing_key event = js ''GET /posts/{id}'' then
        and_then (get p (pathParameters event) (js ''id'')) (\<lambda>i.
        and_then (dynamo_send p (GetCommand tableName [(js ''id'', i)])) (\<lambda>out.
        get p out (js ''Item'')))
      else if routing_key event = js ''GET /posts'' then
        and_then (dynamo_send p (ScanCommand tableName)) (\<lambda>out.
        get p out (js ''Items''))
      else if routing_key event = js ''PUT /posts'' then
        and_then (JSON_parse p (request_body event)) (\<lambda>requestJSON.
        and_then (get p requestJSON (js ''id'')) (\<lambda>i.
        and_then (get p requestJSON (js ''postTitle'')) (\<lambda>postTitle.
        and_then (get p requestJSON (js ''postDescription'')) (\<lambda>postDescription.
        and_then (dynamo_send p (PutCommand tableName
                    [(js ''id'', i), (js ''postTitle'', postTitle),
                     (js ''postDescription'', postDescription)])) (\<lambda>_.
        and_then (get p requestJSON (js ''id'')) (\<lambda>i'.
        and_then (to_string p i') (\<lambda>t.
        return (JString (js ''Put post '' @ t)))))))))
      else
        throw (Thrown Error
          (js ''Unsupported route: '' @ [0x22] @ routing_key event @ [0x22])))"

text \<open>
  The handler: \<^verbatim>\<open>statusCode\<close> starts at 200; the \<^verbatim>\<open>catch\<close> clause sets it to 400 and
  the body to \<^verbatim>\<open>err.message\<close>; the \<^verbatim>\<open>finally\<close> clause replaces the body by
  \<^verbatim>\<open>JSON.stringify(body)\<close>. It returns the response and leaves the store in its new
  state. Its second argument, \<^verbatim>\<open>context\<close>, is never read and is left out.
\<close>

definition handler :: "'s platform \<Rightarrow> event \<Rightarrow> 's \<Rightarrow> response \<times> 's" where
  "handler p event s =
     (case try_block p event s of
        (Inr b, s') \<Rightarrow>
          (\<lparr>statusCode = 200, body = JSON_stringify b, headers = response_headers\<rparr>, s')
      | (Inl err, s') \<Rightarrow>
          (\<lparr>statusCode = 400, body = JSON_stringify (JString (message err)),
            headers = response_headers\<rparr>, s'))"

section \<open>Observing the store\<close>

text \<open>
  To count the store operations of an invocation, the platform is run with a store that
  also records every command it is sent, in order.
\<close>

definition logged :: "'s platform \<Rightarrow> (command list \<times> 's) platform" where
  "logged p =
     \<lparr>dynamo_send =
        (\<lambda>c ls. case dynamo_send p c (snd ls) of (r, s') \<Rightarrow> (r, (fst ls @ [c], s'))),
      syntax_error_message = syntax_error_message p,
      property_error_message = property_error_message p,
      primitive_error_message = primitive_error_message p,
      number_text = number_text p\<rparr>"

definition commands_sent :: "'s platform \<Rightarrow> event \<Rightarrow> 's \<Rightarrow> command list" where
  "commands_sent p event s = fst (snd (handler (logged p) event ([], s)))"

text \<open>The routing key that a command belongs to, in the dispatch table of the source.\<close>

fun command_route :: "command \<Rightarrow> jsstring" where
  "command_route (DeleteCommand tn k) = js ''DELETE /posts/{id}''"
| "command_route (GetCommand tn k) = js ''GET /posts/{id}''"
| "command_route (ScanCommand tn) = js ''GET /posts''"
| "command_route (PutCommand tn item) = js ''PUT /posts''"

definition supported :: "jsstring \<Rightarrow> bool" where
  "supported k =
     (k = js ''DELETE /posts/{id}'' \<or> k = js ''GET /posts/{id}'' \<or>
      k = js ''GET /posts'' \<or> k = js ''PUT /posts'')"

section \<open>A reference store\<close>

text \<open>
  A table is the list of its records by key; the key of a command is the string under
  \<^verbatim>\<open>id\<close> in its \<^verbatim>\<open>Key\<close> or \<^verbatim>\<open>Item\<close>.
\<close>

type_synonym table = "(jsstring \<times> jsvalue) list"

definition key_id :: "(jsstring \<times> jsvalue) list \<Rightarrow> jsstring option" where
  "key_id k = (case map_of k (js ''id'') of Some (JString i) \<Rightarrow> Some i | _ \<Rightarrow> None)"

definition store_error :: "string \<Rightarrow> js_error + jsvalue" where
  "store_error text = Inl (Thrown StoreFailure (js text))"

text \<open>
  Modelled from the spec: the store is an external service and no code of it is in the
  repository. The stack declares its table (\<^verbatim>\<open>tableName: 'blogdb'\<close>, partition key
  \<^verbatim>\<open>id\<close> of type string); the spec gives its four operations: scan-all returns all
  records, get-by-key returns the record with that \<^verbatim>\<open>id\<close> or an empty result,
  put-full-record writes or replaces the whole record, delete-by-key removes the record
  and is no error when there is none. A command addressed to another table than \<open>n\<close>,
  or whose key is not a string, fails. A record is kept as it is handed over. Of an
  output object only the property that the handler reads is modelled.
\<close>

fun table_send :: "jsstring \<Rightarrow> command \<Rightarrow> table \<Rightarrow> (js_error + jsvalue) \<times> table" where
  "table_send n (ScanCommand tn) t =
     (if tn = n then (Inr (JObject [(js ''Items'', JArray (map snd t))]), t)
      else (store_error ''Requested resource not found'', t))"
| "table_send n (GetCommand tn k) t =
     (if tn = n then
        (case key_id k of
           None \<Rightarrow> (store_error ''The provided key element does not match the schema'', t)
         | Some i \<Rightarrow>
             (case map_of t i of
                None \<Rightarrow> (Inr (JObject []), t)
              | Some item \<Rightarrow> (Inr (JObject [(js ''Item'', item)]), t)))
      else (store_error ''Requested resource not found'', t))"
| "table_send n (PutCommand tn item) t =
     (if tn = n then
        (case key_id item of
           None \<Rightarrow> (store_error ''The provided key element does not match the schema'', t)
         | Some i \<Rightarrow> (Inr (JObject []), AList.update i (JObject item) t))
      else (store_error ''Requested resource not found'', t))"
| "table_send n (DeleteCommand tn k) t =
     (if tn = n then
        (case key_id k of
           None \<Rightarrow> (store_error ''The provided key element does not match the schema'', t)
         | Some i \<Rightarrow> (Inr (JObject []), AList.delete i t))
      else (store_error ''Requested resource not found'', t))"

text \<open>
  One platform to run the handler on: the reference store holding the table
  \<^verbatim>\<open>blogdb\<close>, fixed texts for the engine's messages, and number literals taken as
  their own text, which is exact for a literal in the form the engine prints, such as
  \<^verbatim>\<open>1\<close>. The examples below contain no number.
\<close>

definition reference_platform :: "table platform" where
  "reference_platform =
     \<lparr>dynamo_send = table_send (js ''blogdb''),
      syntax_error_message = (\<lambda>text. js ''Unexpected token in JSON''),
      property_error_message =
        (\<lambda>v k. js ''Cannot read properties of '' @
           (if v = JNull then js ''null'' else js ''undefined'') @
           js '' (reading '' @ [0x27] @ k @ [0x27] @ js '')''),
      primitive_error_message = (\<lambda>v. js ''Cannot convert object to primitive value''),
      number_text = (\<lambda>t. t)\<rparr>"

text \<open>The same platform when the store holds another table than the one addressed.\<close>

definition missing_table_platform :: "table platform" where
  "missing_table_platform = reference_platform\<lparr>dynamo_send := table_send (js ''posts'')\<rparr>"

section \<open>Requests and records used as examples\<close>

definition request :: "string \<Rightarrow> string \<Rightarrow> jsvalue \<Rightarrow> jsvalue \<Rightarrow> event" where
  "request m r pp b =
     \<lparr>httpMethod = js m, resource = js r, pathParameters = pp, request_body = b\<rparr>"

definition id_parameters :: "string \<Rightarrow> jsvalue" where
  "id_parameters i = JObject [(js ''id'', JString (js i))]"

definition post :: "string \<Rightarrow> string \<Rightarrow> string \<Rightarrow> (jsstring \<times> jsvalue) list" where
  "post i a d =
     [(js ''id'', JString (js i)), (js ''postTitle'', JString (js a)),
      (js ''postDescription'', JString (js d))]"

definition one_post :: table where
  "one_post = [(js ''1'', JObject (post ''1'' ''a'' ''b''))]"


text \<open>A value without a string conversion: its own \<^verbatim>\<open>toString\<close> is not callable.\<close>

definition stringless :: jsvalue where
  "stringless = JObject [(js ''toString'', JNull)]"

text \<open>
  A computation on the recording store observes one on the plain store when it ends with
  the same result and the same state of the store, and adds to the record a list of
  commands that does not depend on what was recorded before.
\<close>

definition observes :: "(command list \<times> 's, 'a) action \<Rightarrow> ('s, 'a) action \<Rightarrow> bool" where
  "observes M m = (\<forall>s. \<exists>cs. \<forall>log. M (log, s) = (fst (m s), (log @ cs, snd (m s))))"

section \<open>Properties of the model\<close>

subsection \<open>Literals\<close>

lemma js_unit_inj:
  "((of_nat (of_char c) :: 16 word) = of_nat (of_char d)) = (c = d)"
proof
  assume "(of_nat (of_char c) :: 16 word) = of_nat (of_char d)"
  then have "take_bit 16 (of_char c :: nat) = take_bit 16 (of_char d :: nat)"
    by (simp add: word_of_nat_eq_iff)
  moreover have "(of_char c :: nat) < 2 ^ 16"
    by (rule less_trans [OF nat_of_char_less_256]) simp
  moreover have "(of_char d :: nat) < 2 ^ 16"
    by (rule less_trans [OF nat_of_char_less_256]) simp
  ultimately have "(of_char c :: nat) = of_char d"
    by (simp add: take_bit_nat_eq_self)
  then show "c = d" by simp
qed simp

lemma js_eq_iff [simp]: "(js a = js b) = (a = b)"
proof (induction a arbitrary: b)
  case Nil
  then show ?case by (cases b) (simp_all add: js_def)
next
  case (Cons c a)
  then show ?case by (cases b) (auto simp: js_def js_unit_inj)
qed

lemma js_append: "js (a @ b) = js a @ js b"
  by (simp add: js_def)

subsection \<open>Recording the commands changes nothing else\<close>

lemma logged_simps [simp]:
  "dynamo_send (logged p) c ls =
     (case dynamo_send p c (snd ls) of (r, s') \<Rightarrow> (r, (fst ls @ [c], s')))"
  "syntax_error_message (logged p) = syntax_error_message p"
  "property_error_message (logged p) = property_error_message p"
  "primitive_error_message (logged p) = primitive_error_message p"
  "number_text (logged p) = number_text p"
  by (simp_all add: logged_def)

lemma observes_return: "observes (return a) (return a)"
  by (simp add: observes_def return_def)

lemma observes_throw: "observes (throw e) (throw e)"
  by (simp add: observes_def throw_def)

lemma observes_get: "observes (get (logged p) v k) (get p v k)"
  by (simp add: get_def observes_return observes_throw split: option.splits)

lemma observes_to_string: "observes (to_string (logged p) v) (to_string p v)"
  by (simp add: to_string_def observes_return observes_throw split: option.splits)

lemma observes_send: "observes (dynamo_send (logged p) c) (dynamo_send p c)"
  unfolding observes_def
proof
  fix s
  show "\<exists>cs. \<forall>log. dynamo_send (logged p) c (log, s) =
          (fst (dynamo_send p c s), (log @ cs, snd (dynamo_send p c s)))"
    by (rule exI [of _ "[c]"]) (simp split: prod.splits)
qed

lemma observes_and_then:
  assumes M: "observes M m" and F: "\<And>a. observes (F a) (g a)"
  shows "observes (and_then M F) (and_then m g)"
  unfolding observes_def
proof
  fix s
  from M obtain cs where cs: "\<And>log. M (log, s) = (fst (m s), (log @ cs, snd (m s)))"
    unfolding observes_def by blast
  show "\<exists>ds. \<forall>log. and_then M F (log, s) =
          (fst (and_then m g s), (log @ ds, snd (and_then m g s)))"
  proof (cases "m s")
    case (Pair r s')
    show ?thesis
    proof (cases r)
      case (Inl e)
      with Pair cs show ?thesis
        by (intro exI [of _ cs]) (simp add: and_then_def)
    next
      case (Inr a)
      from F [of a] obtain ds where
        ds: "\<And>log. F a (log, s') = (fst (g a s'), (log @ ds, snd (g a s')))"
        unfolding observes_def by blast
      from Pair Inr cs ds show ?thesis
        by (intro exI [of _ "cs @ ds"]) (simp add: and_then_def)
    qed
  qed
qed

lemma observes_JSON_parse: "observes (JSON_parse (logged p) x) (JSON_parse p x)"
  unfolding JSON_parse_def
  by (intro observes_and_then observes_to_string)
     (simp add: observes_return observes_throw split: option.splits)

lemma observes_try_block: "observes (try_block (logged p) ev) (try_block p ev)"
  unfolding try_block_def
  by (simp add: observes_and_then observes_get observes_to_string observes_send
      observes_JSON_parse observes_return observes_throw)

lemma handler_logged:
  "handler (logged p) ev (log, s) =
     (fst (handler p ev s), (log @ commands_sent p ev s, snd (handler p ev s)))"
proof -
  from observes_try_block [of p ev] obtain cs where
    cs: "\<And>log. try_block (logged p) ev (log, s) =
           (fst (try_block p ev s), (log @ cs, snd (try_block p ev s)))"
    unfolding observes_def by blast
  obtain r s' where r: "try_block p ev s = (r, s')" by (cases "try_block p ev s")
  show ?thesis
    using cs [of log] cs [of "[]"] r
    by (cases r) (simp_all add: handler_def commands_sent_def)
qed

subsection \<open>The branches of the dispatch\<close>

lemmas action_defs = and_then_def return_def throw_def get_def to_string_def JSON_parse_def

lemma try_block_delete:
  "routing_key ev = js ''DELETE /posts/{id}'' \<Longrightarrow>
   try_block p ev s =
     (case GetV (pathParameters ev) (js ''id'') of
        None \<Rightarrow>
          (Inl (Thrown TypeError (property_error_message p (pathParameters ev) (js ''id''))), s)
      | Some i \<Rightarrow>
          (case dynamo_send p (DeleteCommand tableName [(js ''id'', i)]) s of
             (Inl e, s') \<Rightarrow> (Inl e, s')
           | (Inr out, s') \<Rightarrow>
               (case ToString i of
                  None \<Rightarrow> (Inl (Thrown TypeError (primitive_error_message p i)), s')
                | Some t \<Rightarrow> (Inr (JString (js ''Deleted item '' @ t)), s'))))"
  by (simp add: try_block_def action_defs split: option.splits prod.splits sum.splits)

lemma try_block_get:
  "routing_key ev = js ''GET /posts/{id}'' \<Longrightarrow>
   try_block p ev s =
     (case GetV (pathParameters ev) (js ''id'') of
        None \<Rightarrow>
          (Inl (Thrown TypeError (property_error_message p (pathParameters ev) (js ''id''))), s)
      | Some i \<Rightarrow>
          (case dynamo_send p (GetCommand tableName [(js ''id'', i)]) s of
             (Inl e, s') \<Rightarrow> (Inl e, s')
           | (Inr out, s') \<Rightarrow>
               (case GetV out (js ''Item'') of
                  None \<Rightarrow> (Inl (Thrown TypeError (property_error_message p out (js ''Item''))), s')
                | Some b \<Rightarrow> (Inr b, s'))))"
  by (simp add: try_block_def action_defs split: option.splits prod.splits sum.splits)

lemma try_block_scan:
  "routing_key ev = js ''GET /posts'' \<Longrightarrow>
   try_block p ev s =
     (case dynamo_send p (ScanCommand tableName) s of
        (Inl e, s') \<Rightarrow> (Inl e, s')
      | (Inr out, s') \<Rightarrow>
          (case GetV out (js ''Items'') of
             None \<Rightarrow> (Inl (Thrown TypeError (property_error_message p out (js ''Items''))), s')
           | Some b \<Rightarrow> (Inr b, s')))"
  by (simp add: try_block_def action_defs split: prod.splits sum.splits option.splits)

lemma GetV_Some_all: "GetV v k = Some x \<Longrightarrow> \<exists>y. GetV v k' = Some y"
  by (cases v) simp_all

lemma try_block_put:
  "routing_key ev = js ''PUT /posts'' \<Longrightarrow>
   try_block p ev s =
     (case ToString (request_body ev) of
        None \<Rightarrow> (Inl (Thrown TypeError (primitive_error_message p (request_body ev))), s)
      | Some text \<Rightarrow>
          (case parse_text (number_text p) text of
             None \<Rightarrow> (Inl (Thrown SyntaxError (syntax_error_message p text)), s)
           | Some v \<Rightarrow>
               (case (GetV v (js ''id''), GetV v (js ''postTitle''), GetV v (js ''postDescription'')) of
                  (Some i, Some a, Some d) \<Rightarrow>
                    (case dynamo_send p (PutCommand tableName
                            [(js ''id'', i), (js ''postTitle'', a), (js ''postDescription'', d)]) s of
                       (Inl e, s') \<Rightarrow> (Inl e, s')
                     | (Inr out, s') \<Rightarrow>
                         (case ToString i of
                            None \<Rightarrow> (Inl (Thrown TypeError (primitive_error_message p i)), s')
                          | Some t \<Rightarrow> (Inr (JString (js ''Put post '' @ t)), s')))
                | _ \<Rightarrow> (Inl (Thrown TypeError (property_error_message p v (js ''id''))), s))))"
proof -
  assume k: "routing_key ev = js ''PUT /posts''"
  show ?thesis
  proof (cases "ToString (request_body ev)")
    case None
    with k show ?thesis by (simp add: try_block_def action_defs)
  next
    case (Some tx)
    note t = this
    show ?thesis
    proof (cases "parse_text (number_text p) tx")
      case None
      with k t show ?thesis by (simp add: try_block_def action_defs)
    next
      case (Some v)
      note v = this
      show ?thesis
      proof (cases "GetV v (js ''id'')")
        case None
        with k t v show ?thesis by (simp add: try_block_def action_defs)
      next
        case (Some i)
        note i = this
        from GetV_Some_all [OF i] obtain a where a: "GetV v (js ''postTitle'') = Some a" by blast
        from GetV_Some_all [OF i] obtain d where d: "GetV v (js ''postDescription'') = Some d" by blast
        from k t v i a d show ?thesis
          by (simp add: try_block_def action_defs split: prod.splits sum.splits option.splits)
      qed
    qed
  qed
qed

lemma try_block_unsupported:
  "\<not> supported (routing_key ev) \<Longrightarrow>
   try_block p ev s =
     (Inl (Thrown Error (js ''Unsupported route: '' @ [0x22] @ routing_key ev @ [0x22])), s)"
  by (simp add: try_block_def supported_def throw_def)

lemma handler_failure:
  "try_block p ev s = (Inl err, s') \<Longrightarrow>
   handler p ev s =
     (\<lparr>statusCode = 400, body = Some (QuoteJSONString (message err)),
       headers = response_headers\<rparr>, s')"
  by (simp add: handler_def JSON_stringify_def)

lemma handler_success:
  "try_block p ev s = (Inr b, s') \<Longrightarrow>
   handler p ev s =
     (\<lparr>statusCode = 200, body = JSON_stringify b, headers = response_headers\<rparr>, s')"
  by (simp add: handler_def)

lemma commands_sent_try_block:
  "commands_sent p ev s = fst (snd (try_block (logged p) ev ([], s)))"
  by (simp add: commands_sent_def handler_def split: prod.splits sum.splits)

lemma sent_scan:
  "routing_key ev = js ''GET /posts'' \<Longrightarrow> commands_sent p ev s = [ScanCommand tableName]"
  by (simp add: commands_sent_try_block try_block_scan split: prod.splits sum.splits option.splits)

lemma sent_delete:
  "routing_key ev = js ''DELETE /posts/{id}'' \<Longrightarrow>
   commands_sent p ev s =
     (case GetV (pathParameters ev) (js ''id'') of
        None \<Rightarrow> []
      | Some i \<Rightarrow> [DeleteCommand tableName [(js ''id'', i)]])"
  by (simp add: commands_sent_try_block try_block_delete split: prod.splits sum.splits option.splits)

lemma sent_get:
  "routing_key ev = js ''GET /posts/{id}'' \<Longrightarrow>
   commands_sent p ev s =
     (case GetV (pathParameters ev) (js ''id'') of
        None \<Rightarrow> []
      | Some i \<Rightarrow> [GetCommand tableName [(js ''id'', i)]])"
  by (simp add: commands_sent_try_block try_block_get split: prod.splits sum.splits option.splits)

lemma sent_put:
  "routing_key ev = js ''PUT /posts'' \<Longrightarrow>
   commands_sent p ev s =
     (case ToString (request_body ev) of
        None \<Rightarrow> []
      | Some text \<Rightarrow>
          (case parse_text (number_text p) text of
             None \<Rightarrow> []
           | Some v \<Rightarrow>
               (case (GetV v (js ''id''), GetV v (js ''postTitle''), GetV v (js ''postDescription'')) of
                  (Some i, Some a, Some d) \<Rightarrow>
                    [PutCommand tableName
                       [(js ''id'', i), (js ''postTitle'', a), (js ''postDescription'', d)]]
                | _ \<Rightarrow> [])))"
  by (simp add: commands_sent_try_block try_block_put split: prod.splits sum.splits option.splits)

lemma sent_unsupported:
  "\<not> supported (routing_key ev) \<Longrightarrow> commands_sent p ev s = []"
  by (simp add: commands_sent_try_block try_block_unsupported)

lemma handler_cases:
  obtains (ok) b s' where "try_block p ev s = (Inr b, s')"
    | (failed) err s' where "try_block p ev s = (Inl err, s')"
  by (cases "try_block p ev s", case_tac a) auto

subsection \<open>Facts about the examples and about the commands sent\<close>

lemma routing_key_request [simp]: "routing_key (request m r pp b) = js (m @ '' '' @ r)"
  by (simp add: routing_key_def request_def js_def)

lemma request_simps [simp]:
  "pathParameters (request m r pp b) = pp"
  "request_body (request m r pp b) = b"
  by (simp_all add: request_def)

lemma reference_platform_simps [simp]:
  "dynamo_send reference_platform = table_send tableName"
  "number_text reference_platform = (\<lambda>t. t)"
  "syntax_error_message reference_platform = (\<lambda>t. js ''Unexpected token in JSON'')"
  by (simp_all add: reference_platform_def tableName_def)

lemma key_id_simps [simp]: "key_id ((js ''id'', JString i) # ps) = Some i"
  "key_id ((js ''id'', JUndefined) # ps) = None" "key_id [] = None"
  by (simp_all add: key_id_def)

lemma supported_cases:
  assumes "supported k"
  obtains "k = js ''DELETE /posts/{id}''" | "k = js ''GET /posts/{id}''"
    | "k = js ''GET /posts''" | "k = js ''PUT /posts''"
  using assms by (auto simp: supported_def)

lemma sent_at_most_one: "length (commands_sent p ev s) \<le> 1"
proof (cases "supported (routing_key ev)")
  case True
  then show ?thesis
  proof (cases rule: supported_cases)
    case 1
    then show ?thesis by (simp add: sent_delete split: option.splits)
  next
    case 2
    then show ?thesis by (simp add: sent_get split: option.splits)
  next
    case 3
    then show ?thesis by (simp add: sent_scan)
  next
    case 4
    then show ?thesis by (simp add: sent_put split: option.splits)
  qed
next
  case False
  then show ?thesis by (simp add: sent_unsupported)
qed

lemma sent_corresponds:
  "list_all (\<lambda>c. command_route c = routing_key ev) (commands_sent p ev s)"
proof (cases "supported (routing_key ev)")
  case True
  then show ?thesis
  proof (cases rule: supported_cases)
    case 1
    then show ?thesis by (simp add: sent_delete split: option.splits)
  next
    case 2
    then show ?thesis by (simp add: sent_get split: option.splits)
  next
    case 3
    then show ?thesis by (simp add: sent_scan)
  next
    case 4
    then show ?thesis by (simp add: sent_put split: option.splits)
  qed
next
  case False
  then show ?thesis by (simp add: sent_unsupported)
qed

lemma parse_post_body:
  \<open>parse_text num (js ''{"id":"1","postTitle":"a","postDescription":"b"}'') =
     Some (JObject (post ''1'' ''a'' ''b''))\<close>
  by (simp add: parse_text_def js_def is_whitespace_def is_digit_def CreateDataProperty_def
      is_array_index_def simple_escape_def post_def)

lemma parse_spec_body:
  \<open>parse_text num (js ''{"id":"1","title":"a","description":"b"}'') =
     Some (JObject [(js ''id'', JString (js ''1'')), (js ''title'', JString (js ''a'')),
       (js ''description'', JString (js ''b''))])\<close>
  by (simp add: parse_text_def js_def is_whitespace_def is_digit_def CreateDataProperty_def
      is_array_index_def simple_escape_def)

lemma parse_open_brace: "parse_text num (js ''{'') = None"
  by (simp add: parse_text_def js_def is_whitespace_def)

subsection \<open>Quoting and failures\<close>

lemma missing_table_platform_simps [simp]:
  "dynamo_send missing_table_platform = table_send (js ''posts'')"
  by (simp add: missing_table_platform_def)

lemma short_escape_nonempty: "short_escape c = Some e \<Longrightarrow> 1 \<le> length e"
  by (auto simp: short_escape_def UnicodeEscape_def split: if_splits)

lemma length_quote_units: "length s \<le> length (quote_units s)"
proof (induction "length s" arbitrary: s rule: less_induct)
  case less
  show ?case
  proof (cases s)
    case Nil
    then show ?thesis by simp
  next
    case (Cons c cs)
    have cs: "length cs \<le> length (quote_units cs)"
      using less [of cs] Cons by simp
    show ?thesis
    proof (cases "short_escape c")
      case (Some e)
      with cs short_escape_nonempty [OF Some] Cons show ?thesis by simp
    next
      case None
      show ?thesis
      proof (cases cs)
        case Nil
        with None Cons show ?thesis by (simp add: UnicodeEscape_def)
      next
        case ds: (Cons d ds)
        have "length ds \<le> length (quote_units ds)"
          using less [of ds] Cons ds by simp
        with cs None Cons ds show ?thesis by (simp add: UnicodeEscape_def)
      qed
    qed
  qed
qed

lemma QuoteJSONString_differs: "QuoteJSONString s \<noteq> s"
proof
  assume "QuoteJSONString s = s"
  then have "length (QuoteJSONString s) = length s" by simp
  with length_quote_units [of s] show False by (simp add: QuoteJSONString_def)
qed

lemma store_failure_try_block:
  assumes "commands_sent p ev s = [c]" and "dynamo_send p c s = (Inl err, s')"
  shows "try_block p ev s = (Inl err, s')"
proof (cases "supported (routing_key ev)")
  case True
  then show ?thesis
  proof (cases rule: supported_cases)
    case 1
    with assms show ?thesis
      by (auto simp: sent_delete try_block_delete split: option.splits)
  next
    case 2
    with assms show ?thesis
      by (auto simp: sent_get try_block_get split: option.splits)
  next
    case 3
    with assms show ?thesis
      by (auto simp: sent_scan try_block_scan split: option.splits)
  next
    case 4
    with assms show ?thesis
      by (auto simp: sent_put try_block_put split: option.splits)
  qed
next
  case False
  with assms show ?thesis by (simp add: sent_unsupported)
qed

subsection \<open>Reading a record\<close>

lemma JSON_stringify_None_iff: "JSON_stringify v = None \<longleftrightarrow> v = JUndefined"
  by (cases v) (simp_all add: JSON_stringify_def)

lemma handler_body_absent_iff:
  "body (fst (handler p ev s)) = None \<longleftrightarrow> fst (try_block p ev s) = Inr JUndefined"
  by (cases rule: handler_cases [of p ev s])
     (auto simp: handler_success handler_failure JSON_stringify_None_iff)

lemma table_get_absent:
  "map_of t k = None \<Longrightarrow>
   table_send n (GetCommand n [(js ''id'', JString k)]) t = (Inr (JObject []), t)"
  by simp

lemma get_absent:
  assumes "routing_key ev = js ''GET /posts/{id}''"
    and "GetV (pathParameters ev) (js ''id'') = Some i"
    and "dynamo_send p (GetCommand tableName [(js ''id'', i)]) s = (Inr out, s')"
    and "GetV out (js ''Item'') = Some JUndefined"
  shows "handler p ev s = (\<lparr>statusCode = 200, body = None, headers = response_headers\<rparr>, s')"
proof -
  from assms have "try_block p ev s = (Inr JUndefined, s')"
    by (simp add: try_block_get)
  from handler_success [OF this] show ?thesis
    by (simp add: JSON_stringify_def)
qed

subsection \<open>Writing and deleting a record\<close>

lemma quote_put_post_1: \<open>QuoteJSONString (js ''Put post 1'') = js ''"Put post 1"''\<close>
  by (simp add: QuoteJSONString_def js_def short_escape_def is_leading_surrogate_def
      is_trailing_surrogate_def)

lemma put_accepted:
  assumes "routing_key ev = js ''PUT /posts''"
    and "ToString (request_body ev) = Some tx"
    and "parse_text (number_text p) tx = Some v"
    and "GetV v (js ''id'') = Some (JString k)"
    and "GetV v (js ''postTitle'') = Some a"
    and "GetV v (js ''postDescription'') = Some d"
    and "dynamo_send p (PutCommand tableName
           [(js ''id'', JString k), (js ''postTitle'', a), (js ''postDescription'', d)]) s =
         (Inr out, s')"
  shows "handler p ev s =
    (\<lparr>statusCode = 200, body = Some (QuoteJSONString (js ''Put post '' @ k)),
      headers = response_headers\<rparr>, s')"
proof -
  from assms have "try_block p ev s = (Inr (JString (js ''Put post '' @ k)), s')"
    by (simp add: try_block_put)
  from handler_success [OF this] show ?thesis
    by (simp add: JSON_stringify_def)
qed


lemma delete_accepted:
  assumes "routing_key ev = js ''DELETE /posts/{id}''"
    and "GetV (pathParameters ev) (js ''id'') = Some (JString k)"
    and "dynamo_send p (DeleteCommand tableName [(js ''id'', JString k)]) s = (Inr out, s')"
  shows "handler p ev s =
    (\<lparr>statusCode = 200, body = Some (QuoteJSONString (js ''Deleted item '' @ k)),
      headers = response_headers\<rparr>, s')"
proof -
  from assms have "try_block p ev s = (Inr (JString (js ''Deleted item '' @ k)), s')"
    by (simp add: try_block_delete)
  from handler_success [OF this] show ?thesis
    by (simp add: JSON_stringify_def)
qed

lemma delete_on_table:
  assumes "routing_key ev = js ''DELETE /posts/{id}''"
    and "GetV (pathParameters ev) (js ''id'') = Some (JString k)"
    and "dynamo_send q = table_send tableName"
  shows "handler q ev t =
    (\<lparr>statusCode = 200, body = Some (QuoteJSONString (js ''Deleted item '' @ k)),
      headers = response_headers\<rparr>, AList.delete k t)"
  using assms by (intro delete_accepted [where out = "JObject []"]) simp_all

lemma quote_deleted_item:
  \<open>QuoteJSONString (js ''Deleted item '' @ js ''1'') = js ''"Deleted item 1"''\<close>
  \<open>QuoteJSONString (js ''Deleted item '' @ js ''42'') = js ''"Deleted item 42"''\<close>
  by (simp_all add: QuoteJSONString_def js_def short_escape_def is_leading_surrogate_def
      is_trailing_surrogate_def)

subsection \<open>What a parsed body can be\<close>












lemma GetV_None_iff: "GetV v k = None \<longleftrightarrow> v = JNull \<or> v = JUndefined"
  by (cases v) simp_all


lemma parse_null: "parse_text num (js ''null'') = Some JNull"
  by (simp add: parse_text_def js_def is_whitespace_def is_digit_def)


lemma sent_put_item:
  assumes "routing_key ev = js ''PUT /posts''"
    and "ToString (request_body ev) = Some tx"
    and "parse_text (number_text p) tx = Some v"
    and "GetV v (js ''id'') = Some j"
  shows "\<exists>a d. GetV v (js ''postTitle'') = Some a \<and> GetV v (js ''postDescription'') = Some d \<and>
    commands_sent p ev s =
      [PutCommand tableName [(js ''id'', j), (js ''postTitle'', a), (js ''postDescription'', d)]]"
proof -
  from GetV_Some_all [OF assms(4)] obtain a where a: "GetV v (js ''postTitle'') = Some a" by blast
  from GetV_Some_all [OF assms(4)] obtain d where d: "GetV v (js ''postDescription'') = Some d"
    by blast
  from assms a d show ?thesis by (simp add: sent_put)
qed


section \<open>The claims\<close>

text \<open>
  C8. Whatever the request, and whether the invocation succeeds or fails, the response
  carries the same three headers: the JSON content type, the one allowed origin
  \<^verbatim>\<open>http://localhost:3000\<close>, and the permission to send credentials.
\<close>

theorem C8_headers:
  "headers (fst (handler p ev s)) =
     [(js ''Content-Type'', JString (js ''application/json'')),
      (js ''Access-Control-Allow-Origin'', JString (js ''http://localhost:3000'')),
      (js ''Access-Control-Allow-Credentials'', JBool True)]"
  by (cases rule: handler_cases [of p ev s])
     (simp_all add: handler_success handler_failure response_headers_def)

text \<open>
  C9. For every request, every platform and every behaviour of the store, failures
  included, the status code of the response is 200 or 400.
\<close>

theorem C9_status_codes:
  "statusCode (fst (handler p ev s)) = 200 \<or> statusCode (fst (handler p ev s)) = 400"
  by (cases rule: handler_cases [of p ev s]) (simp_all add: handler_success handler_failure)

text \<open>
  C1, as the spec states it: for every request with one of the four routing keys the
  dispatcher invokes exactly the corresponding store operation. It does not: a
  \<^verbatim>\<open>PUT /posts\<close> whose body is the text \<^verbatim>\<open>{\<close> fails in \<^verbatim>\<open>JSON.parse\<close>, before any
  command is built, and the store is sent nothing.
\<close>

theorem C1_counterexample:
  "routing_key (request ''PUT'' ''/posts'' JNull (JString (js ''{''))) = js ''PUT /posts'' \<and>
   commands_sent reference_platform (request ''PUT'' ''/posts'' JNull (JString (js ''{''))) [] = []"
  by (simp add: sent_put parse_open_brace)

text \<open>
  C1, amended. For every request the dispatcher sends the store at most one command, and
  only the command that belongs to the request's routing key. It sends exactly that
  command when the values it reads before the call can be read: always for
  \<^verbatim>\<open>GET /posts\<close>; for the two item routes when \<^verbatim>\<open>pathParameters\<close> is neither \<^verbatim>\<open>null\<close>
  nor \<^verbatim>\<open>undefined\<close>; for \<^verbatim>\<open>PUT /posts\<close> when the body converts to a string that
  parses to a value other than \<^verbatim>\<open>null\<close>. In every other case it sends no command at
  all: an unsupported routing key, an item route whose \<^verbatim>\<open>pathParameters\<close> cannot be
  read, a \<^verbatim>\<open>PUT /posts\<close> whose body has no string conversion, does not parse or
  parses to \<^verbatim>\<open>null\<close>. (A property read gives \<open>None\<close> exactly on \<^verbatim>\<open>null\<close> and
  \<^verbatim>\<open>undefined\<close>, and a parsed text is never \<^verbatim>\<open>undefined\<close>.)
\<close>

theorem C1_store_operations:
  "length (commands_sent p ev s) \<le> 1 \<and>
   list_all (\<lambda>c. command_route c = routing_key ev) (commands_sent p ev s) \<and>
   (\<not> supported (routing_key ev) \<longrightarrow> commands_sent p ev s = []) \<and>
   (routing_key ev = js ''GET /posts'' \<longrightarrow> commands_sent p ev s = [ScanCommand tableName]) \<and>
   (routing_key ev = js ''GET /posts/{id}'' \<and> GetV (pathParameters ev) (js ''id'') = Some i \<longrightarrow>
      commands_sent p ev s = [GetCommand tableName [(js ''id'', i)]]) \<and>
   (routing_key ev = js ''GET /posts/{id}'' \<and> GetV (pathParameters ev) (js ''id'') = None \<longrightarrow>
      commands_sent p ev s = []) \<and>
   (routing_key ev = js ''DELETE /posts/{id}'' \<and> GetV (pathParameters ev) (js ''id'') = Some i \<longrightarrow>
      commands_sent p ev s = [DeleteCommand tableName [(js ''id'', i)]]) \<and>
   (routing_key ev = js ''DELETE /posts/{id}'' \<and> GetV (pathParameters ev) (js ''id'') = None \<longrightarrow>
      commands_sent p ev s = []) \<and>
   (routing_key ev = js ''PUT /posts'' \<and> ToString (request_body ev) = None \<longrightarrow>
      commands_sent p ev s = []) \<and>
   (routing_key ev = js ''PUT /posts'' \<and> ToString (request_body ev) = Some tx \<and>
    parse_text (number_text p) tx = None \<longrightarrow>
      commands_sent p ev s = []) \<and>
   (routing_key ev = js ''PUT /posts'' \<and> ToString (request_body ev) = Some tx \<and>
    parse_text (number_text p) tx = Some v \<and> GetV v (js ''id'') = None \<longrightarrow>
      commands_sent p ev s = []) \<and>
   (routing_key ev = js ''PUT /posts'' \<and> ToString (request_body ev) = Some tx \<and>
    parse_text (number_text p) tx = Some v \<and> GetV v (js ''id'') = Some j \<longrightarrow>
      (\<exists>a d. GetV v (js ''postTitle'') = Some a \<and> GetV v (js ''postDescription'') = Some d \<and>
         commands_sent p ev s =
           [PutCommand tableName
              [(js ''id'', j), (js ''postTitle'', a), (js ''postDescription'', d)]]))"
proof (intro conjI impI)
  show "length (commands_sent p ev s) \<le> 1" by (rule sent_at_most_one)
  show "list_all (\<lambda>c. command_route c = routing_key ev) (commands_sent p ev s)"
    by (rule sent_corresponds)
next
  assume "\<not> supported (routing_key ev)"
  then show "commands_sent p ev s = []" by (rule sent_unsupported)
next
  assume "routing_key ev = js ''GET /posts''"
  then show "commands_sent p ev s = [ScanCommand tableName]" by (rule sent_scan)
next
  assume "routing_key ev = js ''GET /posts/{id}'' \<and> GetV (pathParameters ev) (js ''id'') = Some i"
  then show "commands_sent p ev s = [GetCommand tableName [(js ''id'', i)]]"
    by (simp add: sent_get)
next
  assume "routing_key ev = js ''GET /posts/{id}'' \<and> GetV (pathParameters ev) (js ''id'') = None"
  then show "commands_sent p ev s = []" by (simp add: sent_get)
next
  assume "routing_key ev = js ''DELETE /posts/{id}'' \<and> GetV (pathParameters ev) (js ''id'') = Some i"
  then show "commands_sent p ev s = [DeleteCommand tableName [(js ''id'', i)]]"
    by (simp add: sent_delete)
next
  assume "routing_key ev = js ''DELETE /posts/{id}'' \<and> GetV (pathParameters ev) (js ''id'') = None"
  then show "commands_sent p ev s = []" by (simp add: sent_delete)
next
  assume "routing_key ev = js ''PUT /posts'' \<and> ToString (request_body ev) = None"
  then show "commands_sent p ev s = []" by (simp add: sent_put)
next
  assume "routing_key ev = js ''PUT /posts'' \<and> ToString (request_body ev) = Some tx \<and>
    parse_text (number_text p) tx = None"
  then show "commands_sent p ev s = []" by (simp add: sent_put)
next
  assume "routing_key ev = js ''PUT /posts'' \<and> ToString (request_body ev) = Some tx \<and>
    parse_text (number_text p) tx = Some v \<and> GetV v (js ''id'') = None"
  then show "commands_sent p ev s = []" by (simp add: sent_put)
next
  assume "routing_key ev = js ''PUT /posts'' \<and> ToString (request_body ev) = Some tx \<and>
    parse_text (number_text p) tx = Some v \<and> GetV v (js ''id'') = Some j"
  then show "\<exists>a d. GetV v (js ''postTitle'') = Some a \<and> GetV v (js ''postDescription'') = Some d \<and>
         commands_sent p ev s =
           [PutCommand tableName
              [(js ''id'', j), (js ''postTitle'', a), (js ''postDescription'', d)]]"
    by (intro sent_put_item [of ev tx p v j s]) simp_all
qed

text \<open>
  The amended C1 at ten requests: an unsupported key, the scan, each item route with
  and without path parameters, and the put with a body that has no string conversion,
  that does not parse, that is \<^verbatim>\<open>null\<close>, and that is a record.
\<close>

theorem C1_store_operations_witness:
  \<open>commands_sent reference_platform (request ''PATCH'' ''/posts'' JNull JNull) one_post = [] \<and>
   commands_sent reference_platform (request ''GET'' ''/posts'' JNull JNull) one_post =
     [ScanCommand tableName] \<and>
   commands_sent reference_platform (request ''GET'' ''/posts/{id}'' (id_parameters ''1'') JNull) one_post =
     [GetCommand tableName [(js ''id'', JString (js ''1''))]] \<and>
   commands_sent reference_platform (request ''GET'' ''/posts/{id}'' JNull JNull) one_post = [] \<and>
   commands_sent reference_platform (request ''DELETE'' ''/posts/{id}'' (id_parameters ''1'') JNull) one_post =
     [DeleteCommand tableName [(js ''id'', JString (js ''1''))]] \<and>
   commands_sent reference_platform (request ''DELETE'' ''/posts/{id}'' JNull JNull) one_post = [] \<and>
   commands_sent reference_platform (request ''PUT'' ''/posts'' JNull stringless) one_post = [] \<and>
   commands_sent reference_platform (request ''PUT'' ''/posts'' JNull (JString (js ''{''))) one_post = [] \<and>
   commands_sent reference_platform (request ''PUT'' ''/posts'' JNull JNull) one_post = [] \<and>
   commands_sent reference_platform
     (request ''PUT'' ''/posts'' JNull
        (JString (js ''{"id":"1","postTitle":"a","postDescription":"b"}''))) one_post =
     [PutCommand tableName (post ''1'' ''a'' ''b'')]\<close>
proof -
  let ?b = \<open>js ''{"id":"1","postTitle":"a","postDescription":"b"}''\<close>
  let ?P = "\<lambda>ev. commands_sent reference_platform ev one_post"
  note T = C1_store_operations [where p = reference_platform and s = one_post]
  have 0: "?P (request ''PATCH'' ''/posts'' JNull JNull) = []"
    using T [where ev = "request ''PATCH'' ''/posts'' JNull JNull"]
    by (simp add: supported_def)
  have 1: "?P (request ''GET'' ''/posts'' JNull JNull) = [ScanCommand tableName]"
    using T [where ev = "request ''GET'' ''/posts'' JNull JNull"] by simp
  have 2: "?P (request ''GET'' ''/posts/{id}'' (id_parameters ''1'') JNull) =
     [GetCommand tableName [(js ''id'', JString (js ''1''))]]"
    using T [where ev = "request ''GET'' ''/posts/{id}'' (id_parameters ''1'') JNull"
        and i = "JString (js ''1'')"]
    by (simp add: id_parameters_def)
  have 3: "?P (request ''GET'' ''/posts/{id}'' JNull JNull) = []"
    using T [where ev = "request ''GET'' ''/posts/{id}'' JNull JNull"] by simp
  have 4: "?P (request ''DELETE'' ''/posts/{id}'' (id_parameters ''1'') JNull) =
     [DeleteCommand tableName [(js ''id'', JString (js ''1''))]]"
    using T [where ev = "request ''DELETE'' ''/posts/{id}'' (id_parameters ''1'') JNull"
        and i = "JString (js ''1'')"]
    by (simp add: id_parameters_def)
  have 5: "?P (request ''DELETE'' ''/posts/{id}'' JNull JNull) = []"
    using T [where ev = "request ''DELETE'' ''/posts/{id}'' JNull JNull"] by simp
  have 6: "?P (request ''PUT'' ''/posts'' JNull stringless) = []"
    using T [where ev = "request ''PUT'' ''/posts'' JNull stringless"]
    by (simp add: stringless_def)
  have 7: "?P (request ''PUT'' ''/posts'' JNull (JString (js ''{''))) = []"
    using T [where ev = "request ''PUT'' ''/posts'' JNull (JString (js ''{''))" and tx = "js ''{''"]
    by (simp add: parse_open_brace)
  have 8: "?P (request ''PUT'' ''/posts'' JNull JNull) = []"
    using T [where ev = "request ''PUT'' ''/posts'' JNull JNull" and tx = "js ''null''"
        and v = JNull]
    by (simp add: parse_null)
  have 9: "?P (request ''PUT'' ''/posts'' JNull (JString ?b)) =
     [PutCommand tableName (post ''1'' ''a'' ''b'')]"
    using T [where ev = "request ''PUT'' ''/posts'' JNull (JString ?b)" and tx = ?b
        and v = "JObject (post ''1'' ''a'' ''b'')" and j = "JString (js ''1'')"]
    by (simp add: parse_post_body) (auto simp: post_def)
  from 0 1 2 3 4 5 6 7 8 9 show ?thesis by simp
qed

text \<open>
  C2, as the spec states it: the body of a failure response equals the failure's message
  text. It does not: the \<^verbatim>\<open>finally\<close> clause serializes the message, so the body is the
  message as a JSON string literal, in double quotes and escaped. Here a failing store
  call (the table does not exist) has the message \<^verbatim>\<open>Requested resource not found\<close>.
\<close>

theorem C2_counterexample:
  "try_block missing_table_platform (request ''GET'' ''/posts'' JNull JNull) one_post =
     (Inl (Thrown StoreFailure (js ''Requested resource not found'')), one_post) \<and>
   body (fst (handler missing_table_platform (request ''GET'' ''/posts'' JNull JNull) one_post)) \<noteq>
     Some (js ''Requested resource not found'')"
proof -
  have t: "try_block missing_table_platform (request ''GET'' ''/posts'' JNull JNull) one_post =
     (Inl (Thrown StoreFailure (js ''Requested resource not found'')), one_post)"
    by (simp add: try_block_scan tableName_def store_error_def)
  show ?thesis
    using t QuoteJSONString_differs [of "js ''Requested resource not found''"]
    by (simp add: handler_failure [OF t])
qed

text \<open>
  C2, amended. Every failure raised while performing the operation is caught, and the
  response has the status code 400 and as body the JSON string literal of the failure's
  message (\<^verbatim>\<open>JSON.stringify\<close> of the message text); this holds in particular for an
  unsupported routing key, for a body that does not parse on \<^verbatim>\<open>PUT /posts\<close> and for a
  store call that fails. No kind of failure has another status code.
\<close>

theorem C2_failure_response:
  "(try_block p ev s = (Inl err, s') \<longrightarrow>
      handler p ev s =
        (\<lparr>statusCode = 400, body = Some (QuoteJSONString (message err)),
          headers = response_headers\<rparr>, s')) \<and>
   (\<not> supported (routing_key ev) \<longrightarrow>
      handler p ev s =
        (\<lparr>statusCode = 400,
          body = Some (QuoteJSONString
            (js ''Unsupported route: '' @ [0x22] @ routing_key ev @ [0x22])),
          headers = response_headers\<rparr>, s)) \<and>
   (routing_key ev = js ''PUT /posts'' \<and> ToString (request_body ev) = Some tx \<and>
    parse_text (number_text p) tx = None \<longrightarrow>
      handler p ev s =
        (\<lparr>statusCode = 400, body = Some (QuoteJSONString (syntax_error_message p tx)),
          headers = response_headers\<rparr>, s)) \<and>
   (commands_sent p ev s = [c] \<and> dynamo_send p c s = (Inl e, s'') \<longrightarrow>
      handler p ev s =
        (\<lparr>statusCode = 400, body = Some (QuoteJSONString (message e)),
          headers = response_headers\<rparr>, s''))"
proof (intro conjI impI)
  assume "try_block p ev s = (Inl err, s')"
  then show "handler p ev s =
        (\<lparr>statusCode = 400, body = Some (QuoteJSONString (message err)),
          headers = response_headers\<rparr>, s')"
    by (rule handler_failure)
next
  assume "\<not> supported (routing_key ev)"
  then show "handler p ev s =
        (\<lparr>statusCode = 400,
          body = Some (QuoteJSONString
            (js ''Unsupported route: '' @ [0x22] @ routing_key ev @ [0x22])),
          headers = response_headers\<rparr>, s)"
    by (simp add: handler_failure [OF try_block_unsupported])
next
  assume "routing_key ev = js ''PUT /posts'' \<and> ToString (request_body ev) = Some tx \<and>
    parse_text (number_text p) tx = None"
  then have "try_block p ev s = (Inl (Thrown SyntaxError (syntax_error_message p tx)), s)"
    by (simp add: try_block_put)
  then show "handler p ev s =
        (\<lparr>statusCode = 400, body = Some (QuoteJSONString (syntax_error_message p tx)),
          headers = response_headers\<rparr>, s)"
    by (simp add: handler_failure)
next
  assume "commands_sent p ev s = [c] \<and> dynamo_send p c s = (Inl e, s'')"
  then have "try_block p ev s = (Inl e, s'')"
    by (simp add: store_failure_try_block)
  then show "handler p ev s =
        (\<lparr>statusCode = 400, body = Some (QuoteJSONString (message e)),
          headers = response_headers\<rparr>, s'')"
    by (rule handler_failure)
qed

text \<open>The amended C2 at an unsupported route, an unparsable body and a failing store.\<close>

theorem C2_failure_response_witness:
  "handler reference_platform (request ''POST'' ''/posts'' JNull JNull) one_post =
     (\<lparr>statusCode = 400,
       body = Some ([0x22] @ js ''Unsupported route: '' @ [0x5C, 0x22] @ js ''POST /posts'' @
                    [0x5C, 0x22] @ [0x22]),
       headers = response_headers\<rparr>, one_post) \<and>
   handler reference_platform (request ''PUT'' ''/posts'' JNull (JString (js ''{''))) one_post =
     (\<lparr>statusCode = 400, body = Some ([0x22] @ js ''Unexpected token in JSON'' @ [0x22]),
       headers = response_headers\<rparr>, one_post) \<and>
   handler missing_table_platform (request ''GET'' ''/posts'' JNull JNull) one_post =
     (\<lparr>statusCode = 400, body = Some ([0x22] @ js ''Requested resource not found'' @ [0x22]),
       headers = response_headers\<rparr>, one_post)"
proof -
  let ?post = "request ''POST'' ''/posts'' JNull JNull"
  let ?put = "request ''PUT'' ''/posts'' JNull (JString (js ''{''))"
  let ?get = "request ''GET'' ''/posts'' JNull JNull"
  have 1: "\<not> supported (routing_key ?post)"
    by (simp add: supported_def)
  have 2: "routing_key ?put = js ''PUT /posts'' \<and> ToString (request_body ?put) = Some (js ''{'') \<and>
    parse_text (number_text reference_platform) (js ''{'') = None"
    by (simp add: parse_open_brace)
  have 3: "commands_sent missing_table_platform ?get one_post = [ScanCommand tableName] \<and>
    dynamo_send missing_table_platform (ScanCommand tableName) one_post =
      (Inl (Thrown StoreFailure (js ''Requested resource not found'')), one_post)"
    by (simp add: sent_scan tableName_def store_error_def)
  have q1: "QuoteJSONString (js ''Unsupported route: '' @ [0x22] @ js ''POST /posts'' @ [0x22]) =
    [0x22] @ js ''Unsupported route: '' @ [0x5C, 0x22] @ js ''POST /posts'' @ [0x5C, 0x22] @ [0x22]"
    by (simp add: QuoteJSONString_def js_def short_escape_def is_leading_surrogate_def is_trailing_surrogate_def)
  have q2: "QuoteJSONString (js ''Unexpected token in JSON'') =
    [0x22] @ js ''Unexpected token in JSON'' @ [0x22]"
    by (simp add: QuoteJSONString_def js_def short_escape_def is_leading_surrogate_def is_trailing_surrogate_def)
  have q3: "QuoteJSONString (js ''Requested resource not found'') =
    [0x22] @ js ''Requested resource not found'' @ [0x22]"
    by (simp add: QuoteJSONString_def js_def short_escape_def is_leading_surrogate_def is_trailing_surrogate_def)
  from C2_failure_response [of reference_platform ?post one_post] 1 q1
  have a: "handler reference_platform ?post one_post =
     (\<lparr>statusCode = 400,
       body = Some ([0x22] @ js ''Unsupported route: '' @ [0x5C, 0x22] @ js ''POST /posts'' @
                    [0x5C, 0x22] @ [0x22]),
       headers = response_headers\<rparr>, one_post)"
    by simp
  from C2_failure_response [of reference_platform ?put one_post _ _ "js ''{''"] 2 q2
  have b: "handler reference_platform ?put one_post =
     (\<lparr>statusCode = 400, body = Some ([0x22] @ js ''Unexpected token in JSON'' @ [0x22]),
       headers = response_headers\<rparr>, one_post)"
    by simp
  from C2_failure_response [of missing_table_platform ?get one_post _ _ _ "ScanCommand tableName"
      "Thrown StoreFailure (js ''Requested resource not found'')" one_post] 3 q3
  have c: "handler missing_table_platform ?get one_post =
     (\<lparr>statusCode = 400, body = Some ([0x22] @ js ''Requested resource not found'' @ [0x22]),
       headers = response_headers\<rparr>, one_post)"
    by simp
  from a b c show ?thesis by simp
qed

text \<open>
  C3, as the spec states it: for \<^verbatim>\<open>PATCH /posts\<close> the body equals the text
  \<^verbatim>\<open>Unsupported route: "PATCH /posts"\<close>. It does not: the body is that text serialized
  once more, as a JSON string literal.
\<close>

theorem C3_counterexample:
  \<open>routing_key (request ''PATCH'' ''/posts'' JNull JNull) = js ''PATCH /posts'' \<and>
   body (fst (handler reference_platform (request ''PATCH'' ''/posts'' JNull JNull) one_post)) \<noteq>
     Some (js ''Unsupported route: "PATCH /posts"'')\<close>
proof -
  let ?ev = "request ''PATCH'' ''/posts'' JNull JNull"
  have "\<not> supported (routing_key ?ev)"
    by (simp add: supported_def)
  then have "try_block reference_platform ?ev one_post =
    (Inl (Thrown Error (js ''Unsupported route: '' @ [0x22] @ routing_key ?ev @ [0x22])), one_post)"
    by (rule try_block_unsupported)
  from handler_failure [OF this]
  show ?thesis
    using QuoteJSONString_differs [of \<open>js ''Unsupported route: "PATCH /posts"''\<close>]
    by (simp add: js_def)
qed

text \<open>
  C3, amended. A request whose routing key is none of the four fails with an error
  whose message is \<^verbatim>\<open>Unsupported route: "<routing key>"\<close>, the offending key in double
  quotes; the response has the status code 400 and as body the JSON string literal of
  that message (the message in double quotes, its own quotes escaped).
\<close>

theorem C3_unsupported_route:
  assumes "\<not> supported (routing_key ev)"
  shows "try_block p ev s =
           (Inl (Thrown Error (js ''Unsupported route: '' @ [0x22] @ routing_key ev @ [0x22])), s) \<and>
         handler p ev s =
           (\<lparr>statusCode = 400,
             body = Some (QuoteJSONString
               (js ''Unsupported route: '' @ [0x22] @ routing_key ev @ [0x22])),
             headers = response_headers\<rparr>, s)"
  using assms by (simp add: try_block_unsupported handler_failure [OF try_block_unsupported])

text \<open>The amended C3 at \<^verbatim>\<open>PATCH /posts\<close>, with the body written out.\<close>

theorem C3_unsupported_route_witness:
  \<open>\<not> supported (routing_key (request ''PATCH'' ''/posts'' JNull JNull)) \<and>
   try_block reference_platform (request ''PATCH'' ''/posts'' JNull JNull) one_post =
     (Inl (Thrown Error (js ''Unsupported route: "PATCH /posts"'')), one_post) \<and>
   handler reference_platform (request ''PATCH'' ''/posts'' JNull JNull) one_post =
     (\<lparr>statusCode = 400,
       body = Some ([0x22] @ js ''Unsupported route: '' @ [0x5C, 0x22] @ js ''PATCH /posts'' @
                    [0x5C, 0x22] @ [0x22]),
       headers = response_headers\<rparr>, one_post)\<close>
proof -
  have u: "\<not> supported (routing_key (request ''PATCH'' ''/posts'' JNull JNull))"
    by (simp add: supported_def)
  have q: "QuoteJSONString (js ''Unsupported route: '' @ [0x22] @ js ''PATCH /posts'' @ [0x22]) =
    [0x22] @ js ''Unsupported route: '' @ [0x5C, 0x22] @ js ''PATCH /posts'' @ [0x5C, 0x22] @ [0x22]"
    by (simp add: QuoteJSONString_def js_def short_escape_def is_leading_surrogate_def
        is_trailing_surrogate_def)
  have m: \<open>js ''Unsupported route: "PATCH /posts"'' =
    js ''Unsupported route: '' @ [0x22] @ js ''PATCH /posts'' @ [0x22]\<close>
    by (simp add: js_def)
  from C3_unsupported_route [OF u, of reference_platform one_post] u q m
  show ?thesis by simp
qed

text \<open>
  C4 says that the body of every response is a string, also for \<^verbatim>\<open>GET /posts/{id}\<close> with
  an id that the store does not hold. The \<^verbatim>\<open>finally\<close> clause does serialize on every
  path, but \<^verbatim>\<open>JSON.stringify(undefined)\<close> is \<^verbatim>\<open>undefined\<close>: for the id 42 and a table that
  holds only the record 1, the response has the status code 200 and no body.
\<close>

theorem C4_absent_body:
  "handler reference_platform (request ''GET'' ''/posts/{id}'' (id_parameters ''42'') JNull) one_post =
     (\<lparr>statusCode = 200, body = None, headers = response_headers\<rparr>, one_post)"
  by (rule get_absent [where i = "JString (js ''42'')" and out = "JObject []"])
     (simp_all add: id_parameters_def one_post_def)

text \<open>
  C6. A \<^verbatim>\<open>GET /posts/{id}\<close> for an id that the store does not hold is answered with the
  status code 200 and an absent body, not with an error response: on every platform,
  whenever the store answers the get-by-key command with an output that has no
  \<^verbatim>\<open>Item\<close>; and on the reference store for every table and every id without a record.
\<close>

theorem C6_get_absent:
  "(routing_key ev = js ''GET /posts/{id}'' \<and> GetV (pathParameters ev) (js ''id'') = Some i \<and>
    dynamo_send p (GetCommand tableName [(js ''id'', i)]) s = (Inr out, s') \<and>
    GetV out (js ''Item'') = Some JUndefined \<longrightarrow>
      handler p ev s =
        (\<lparr>statusCode = 200, body = None, headers = response_headers\<rparr>, s')) \<and>
   (routing_key ev = js ''GET /posts/{id}'' \<and>
    GetV (pathParameters ev) (js ''id'') = Some (JString k) \<and>
    dynamo_send q = table_send tableName \<and> map_of t k = None \<longrightarrow>
      handler q ev t =
        (\<lparr>statusCode = 200, body = None, headers = response_headers\<rparr>, t))"
proof (intro conjI impI)
  assume "routing_key ev = js ''GET /posts/{id}'' \<and> GetV (pathParameters ev) (js ''id'') = Some i \<and>
    dynamo_send p (GetCommand tableName [(js ''id'', i)]) s = (Inr out, s') \<and>
    GetV out (js ''Item'') = Some JUndefined"
  then show "handler p ev s =
        (\<lparr>statusCode = 200, body = None, headers = response_headers\<rparr>, s')"
    by (intro get_absent [of ev i p s out]) simp_all
next
  assume a: "routing_key ev = js ''GET /posts/{id}'' \<and>
    GetV (pathParameters ev) (js ''id'') = Some (JString k) \<and>
    dynamo_send q = table_send tableName \<and> map_of t k = None"
  then have "dynamo_send q (GetCommand tableName [(js ''id'', JString k)]) t = (Inr (JObject []), t)"
    by simp
  with a show "handler q ev t =
        (\<lparr>statusCode = 200, body = None, headers = response_headers\<rparr>, t)"
    by (intro get_absent [of ev "JString k" q t "JObject []"]) simp_all
qed

text \<open>C6 at the id 7, on the empty table and on a table that holds the record 1.\<close>

theorem C6_get_absent_witness:
  "map_of one_post (js ''7'') = None \<and>
   dynamo_send reference_platform (GetCommand tableName [(js ''id'', JString (js ''7''))]) [] =
     (Inr (JObject []), []) \<and>
   handler reference_platform (request ''GET'' ''/posts/{id}'' (id_parameters ''7'') JNull) [] =
     (\<lparr>statusCode = 200, body = None, headers = response_headers\<rparr>, []) \<and>
   handler reference_platform (request ''GET'' ''/posts/{id}'' (id_parameters ''7'') JNull) one_post =
     (\<lparr>statusCode = 200, body = None, headers = response_headers\<rparr>, one_post)"
proof -
  let ?ev = "request ''GET'' ''/posts/{id}'' (id_parameters ''7'') JNull"
  have m: "map_of one_post (js ''7'') = None"
    by (simp add: one_post_def)
  have g: "dynamo_send reference_platform (GetCommand tableName [(js ''id'', JString (js ''7''))]) [] =
     (Inr (JObject []), [])"
    by simp
  from C6_get_absent [of ?ev "JString (js ''7'')" reference_platform "[]" "JObject []" "[]"
      "js ''7''" reference_platform one_post] m g
  show ?thesis by (simp add: id_parameters_def)
qed

text \<open>
  C5, as the spec states it: a \<^verbatim>\<open>PUT /posts\<close> with the body
  \<^verbatim>\<open>{"id":"1","title":"a","description":"b"}\<close> stores a record with those three fields.
  It does not: the handler reads \<^verbatim>\<open>postTitle\<close> and \<^verbatim>\<open>postDescription\<close> of the parsed
  body, which this body does not have. The one record handed to the store has the id 1
  and two undefined fields; the values \<^verbatim>\<open>a\<close> and \<^verbatim>\<open>b\<close> never reach the store.
\<close>

theorem C5_counterexample:
  \<open>commands_sent reference_platform
     (request ''PUT'' ''/posts'' JNull (JString (js ''{"id":"1","title":"a","description":"b"}''))) [] =
     [PutCommand tableName
        [(js ''id'', JString (js ''1'')), (js ''postTitle'', JUndefined),
         (js ''postDescription'', JUndefined)]]\<close>
  by (simp add: sent_put parse_spec_body)

text \<open>
  C5, amended. A \<^verbatim>\<open>PUT /posts\<close> with the body
  \<^verbatim>\<open>{"id":"1","postTitle":"a","postDescription":"b"}\<close> hands the store, in one put
  command, a record with exactly those three fields and values; when the store accepts
  it, the response has the status code 200 and the body \<^verbatim>\<open>"Put post 1"\<close>, a JSON
  string that contains the id.
\<close>

theorem C5_put_example:
  assumes "routing_key ev = js ''PUT /posts''"
    and \<open>request_body ev = JString (js ''{"id":"1","postTitle":"a","postDescription":"b"}'')\<close>
    and "dynamo_send p (PutCommand tableName
           [(js ''id'', JString (js ''1'')), (js ''postTitle'', JString (js ''a'')),
            (js ''postDescription'', JString (js ''b''))]) s = (Inr out, s')"
  shows \<open>commands_sent p ev s =
           [PutCommand tableName
              [(js ''id'', JString (js ''1'')), (js ''postTitle'', JString (js ''a'')),
               (js ''postDescription'', JString (js ''b''))]] \<and>
         handler p ev s =
           (\<lparr>statusCode = 200, body = Some (js ''"Put post 1"''),
             headers = response_headers\<rparr>, s')\<close>
proof -
  have 1: "commands_sent p ev s =
           [PutCommand tableName
              [(js ''id'', JString (js ''1'')), (js ''postTitle'', JString (js ''a'')),
               (js ''postDescription'', JString (js ''b''))]]"
    using assms(1,2) by (simp add: sent_put parse_post_body post_def)
  have "handler p ev s =
    (\<lparr>statusCode = 200, body = Some (QuoteJSONString (js ''Put post '' @ js ''1'')),
      headers = response_headers\<rparr>, s')"
    using assms
    by (intro put_accepted [where a = "JString (js ''a'')" and d = "JString (js ''b'')" and out = out
          and tx = \<open>js ''{"id":"1","postTitle":"a","postDescription":"b"}''\<close>
          and v = "JObject (post ''1'' ''a'' ''b'')"])
       (simp_all add: parse_post_body, simp_all add: post_def)
  then have "handler p ev s =
    (\<lparr>statusCode = 200, body = Some (QuoteJSONString (js ''Put post 1'')),
      headers = response_headers\<rparr>, s')"
    by (simp add: js_def)
  with 1 show ?thesis by (simp add: quote_put_post_1)
qed

text \<open>The amended C5 on the reference store, starting from the empty table.\<close>

theorem C5_put_example_witness:
  \<open>handler reference_platform
     (request ''PUT'' ''/posts'' JNull
        (JString (js ''{"id":"1","postTitle":"a","postDescription":"b"}''))) [] =
     (\<lparr>statusCode = 200, body = Some (js ''"Put post 1"''), headers = response_headers\<rparr>,
      [(js ''1'', JObject [(js ''id'', JString (js ''1'')), (js ''postTitle'', JString (js ''a'')),
               (js ''postDescription'', JString (js ''b''))])])\<close>
proof -
  let ?ev = \<open>request ''PUT'' ''/posts'' JNull
        (JString (js ''{"id":"1","postTitle":"a","postDescription":"b"}''))\<close>
  let ?item = "[(js ''id'', JString (js ''1'')), (js ''postTitle'', JString (js ''a'')),
               (js ''postDescription'', JString (js ''b''))]"
  have k: "routing_key ?ev = js ''PUT /posts''" by simp
  have b: \<open>request_body ?ev = JString (js ''{"id":"1","postTitle":"a","postDescription":"b"}'')\<close>
    by simp
  have s: "dynamo_send reference_platform (PutCommand tableName ?item) [] =
     (Inr (JObject []), [(js ''1'', JObject ?item)])"
    by simp
  from C5_put_example [OF k b s] show ?thesis by simp
qed

text \<open>
  C7. A \<^verbatim>\<open>DELETE /posts/{id}\<close> is answered with the status code 200 and a confirmation
  that names the id (the JSON string \<^verbatim>\<open>"Deleted item <id>"\<close>) whenever the store accepts
  the delete-by-key command. On the reference store it is accepted for every table and
  every id, with or without a record; afterwards the table holds no record with that id,
  and a second delete of the same id gives the same response and the same table.
\<close>

theorem C7_delete_idempotent:
  "(routing_key ev = js ''DELETE /posts/{id}'' \<and>
    GetV (pathParameters ev) (js ''id'') = Some (JString k) \<and>
    dynamo_send p (DeleteCommand tableName [(js ''id'', JString k)]) s = (Inr out, s') \<longrightarrow>
      handler p ev s =
        (\<lparr>statusCode = 200, body = Some (QuoteJSONString (js ''Deleted item '' @ k)),
          headers = response_headers\<rparr>, s')) \<and>
   (routing_key ev = js ''DELETE /posts/{id}'' \<and>
    GetV (pathParameters ev) (js ''id'') = Some (JString k) \<and>
    dynamo_send q = table_send tableName \<longrightarrow>
      handler q ev t =
        (\<lparr>statusCode = 200, body = Some (QuoteJSONString (js ''Deleted item '' @ k)),
          headers = response_headers\<rparr>, AList.delete k t) \<and>
      map_of (snd (handler q ev t)) k = None \<and>
      handler q ev (snd (handler q ev t)) = handler q ev t)"
proof (intro conjI impI)
  assume "routing_key ev = js ''DELETE /posts/{id}'' \<and>
    GetV (pathParameters ev) (js ''id'') = Some (JString k) \<and>
    dynamo_send p (DeleteCommand tableName [(js ''id'', JString k)]) s = (Inr out, s')"
  then show "handler p ev s =
        (\<lparr>statusCode = 200, body = Some (QuoteJSONString (js ''Deleted item '' @ k)),
          headers = response_headers\<rparr>, s')"
    by (intro delete_accepted [of ev k p s out]) simp_all
next
  assume a: "routing_key ev = js ''DELETE /posts/{id}'' \<and>
    GetV (pathParameters ev) (js ''id'') = Some (JString k) \<and>
    dynamo_send q = table_send tableName"
  then have d: "\<And>u. handler q ev u =
        (\<lparr>statusCode = 200, body = Some (QuoteJSONString (js ''Deleted item '' @ k)),
          headers = response_headers\<rparr>, AList.delete k u)"
    by (intro delete_on_table) simp_all
  show "handler q ev t =
        (\<lparr>statusCode = 200, body = Some (QuoteJSONString (js ''Deleted item '' @ k)),
          headers = response_headers\<rparr>, AList.delete k t)"
    by (rule d)
  show "map_of (snd (handler q ev t)) k = None"
    by (simp add: d delete_conv')
  show "handler q ev (snd (handler q ev t)) = handler q ev t"
    by (simp add: d delete_idem)
qed

text \<open>C7 at the id 1, deleted twice, and at the id 42, which has no record.\<close>

theorem C7_delete_idempotent_witness:
  \<open>handler reference_platform (request ''DELETE'' ''/posts/{id}'' (id_parameters ''1'') JNull) one_post =
     (\<lparr>statusCode = 200, body = Some (js ''"Deleted item 1"''), headers = response_headers\<rparr>, []) \<and>
   handler reference_platform (request ''DELETE'' ''/posts/{id}'' (id_parameters ''1'') JNull) [] =
     (\<lparr>statusCode = 200, body = Some (js ''"Deleted item 1"''), headers = response_headers\<rparr>, []) \<and>
   handler reference_platform (request ''DELETE'' ''/posts/{id}'' (id_parameters ''42'') JNull) one_post =
     (\<lparr>statusCode = 200, body = Some (js ''"Deleted item 42"''), headers = response_headers\<rparr>,
      one_post)\<close>
proof -
  let ?d1 = "request ''DELETE'' ''/posts/{id}'' (id_parameters ''1'') JNull"
  let ?d42 = "request ''DELETE'' ''/posts/{id}'' (id_parameters ''42'') JNull"
  have s1: "dynamo_send reference_platform (DeleteCommand tableName [(js ''id'', JString (js ''1''))])
      one_post = (Inr (JObject []), [])"
    by (simp add: one_post_def)
  from C7_delete_idempotent [of ?d1 "js ''1''" reference_platform one_post "JObject []" "[]"
      reference_platform one_post] s1
  have a: "handler reference_platform ?d1 one_post =
     (\<lparr>statusCode = 200, body = Some (QuoteJSONString (js ''Deleted item '' @ js ''1'')),
       headers = response_headers\<rparr>, [])"
    and b: "handler reference_platform ?d1 (snd (handler reference_platform ?d1 one_post)) =
      handler reference_platform ?d1 one_post"
    by (auto simp: id_parameters_def)
  from a b have c: "handler reference_platform ?d1 [] =
     (\<lparr>statusCode = 200, body = Some (QuoteJSONString (js ''Deleted item '' @ js ''1'')),
       headers = response_headers\<rparr>, [])"
    by simp
  have s42: "dynamo_send reference_platform
      (DeleteCommand tableName [(js ''id'', JString (js ''42''))]) one_post =
      (Inr (JObject []), one_post)"
    by (simp add: one_post_def)
  from C7_delete_idempotent [of ?d42 "js ''42''" reference_platform one_post "JObject []" one_post
      reference_platform one_post] s42
  have e: "handler reference_platform ?d42 one_post =
     (\<lparr>statusCode = 200, body = Some (QuoteJSONString (js ''Deleted item '' @ js ''42'')),
       headers = response_headers\<rparr>, one_post)"
    by (simp add: id_parameters_def)
  from a c e show ?thesis by (simp add: quote_deleted_item)
qed





end
